theory Spec2Isabelle
  imports Main "HOL-Library.Word"
begin

unbundle bit_operations_syntax

section \<open>NCI data model\<close>

text \<open>
  The enumerations of the NCI core library, with the members that the switch
  statements of \<^verbatim>\<open>nci_adapter.c\<close> and \<^verbatim>\<open>nci_target.c\<close> list.
  \<^verbatim>\<open>NCI_MODE_PASSIVE_POLL_V\<close> and \<^verbatim>\<open>NCI_MODE_PASSIVE_LISTEN_V\<close> of the target
  file are the \<^verbatim>\<open>_15693\<close> members of the adapter file.
\<close>

type_synonym byte = "8 word"
type_synonym guint = "32 word"

datatype NCI_RF_INTERFACE =
    NCI_RF_INTERFACE_NFCEE_DIRECT
  | NCI_RF_INTERFACE_FRAME
  | NCI_RF_INTERFACE_ISO_DEP
  | NCI_RF_INTERFACE_NFC_DEP
  | NCI_RF_INTERFACE_PROPRIETARY

datatype NCI_PROTOCOL =
    NCI_PROTOCOL_UNDETERMINED
  | NCI_PROTOCOL_T1T
  | NCI_PROTOCOL_T2T
  | NCI_PROTOCOL_T3T
  | NCI_PROTOCOL_T5T
  | NCI_PROTOCOL_ISO_DEP
  | NCI_PROTOCOL_NFC_DEP
  | NCI_PROTOCOL_PROPRIETARY

datatype NCI_MODE =
    NCI_MODE_PASSIVE_POLL_A
  | NCI_MODE_PASSIVE_POLL_B
  | NCI_MODE_PASSIVE_POLL_F
  | NCI_MODE_ACTIVE_POLL_A
  | NCI_MODE_ACTIVE_POLL_F
  | NCI_MODE_PASSIVE_POLL_15693
  | NCI_MODE_PASSIVE_LISTEN_A
  | NCI_MODE_PASSIVE_LISTEN_B
  | NCI_MODE_PASSIVE_LISTEN_F
  | NCI_MODE_ACTIVE_LISTEN_A
  | NCI_MODE_ACTIVE_LISTEN_F
  | NCI_MODE_PASSIVE_LISTEN_15693

text \<open>
  \<^verbatim>\<open>NciModeParamPollA\<close>: \<^verbatim>\<open>sens_res[2]\<close>, \<^verbatim>\<open>nfcid1_len\<close>, \<^verbatim>\<open>nfcid1[10]\<close>,
  \<^verbatim>\<open>sel_res_len\<close>, \<^verbatim>\<open>sel_res\<close>. Fixed-size arrays are byte lists; their sizes
  are stated by \<open>wf_poll_a\<close>.
\<close>

record NciModeParamPollA =
  sens_res :: "byte list"
  nfcid1_len :: byte
  nfcid1 :: "byte list"
  sel_res_len :: byte
  sel_res :: byte

definition wf_poll_a :: "NciModeParamPollA \<Rightarrow> bool" where
  "wf_poll_a pa \<longleftrightarrow>
     length (sens_res pa) = 2 \<and> length (nfcid1 pa) = 10 \<and> unat (nfcid1_len pa) \<le> 10"

text \<open>
  \<^verbatim>\<open>NciModeParamPollB\<close>: \<^verbatim>\<open>nfcid0[4]\<close>, \<^verbatim>\<open>fsc\<close>, \<^verbatim>\<open>app_data[4]\<close> and the
  \<^verbatim>\<open>GUtilData prot_info\<close> (a byte pointer with its size, here the byte list).
\<close>

record NciModeParamPollB =
  nfcid0 :: "byte list"
  fsc :: guint
  app_data :: "byte list"
  prot_info :: "byte list"

definition wf_poll_b :: "NciModeParamPollB \<Rightarrow> bool" where
  "wf_poll_b pb \<longleftrightarrow> length (nfcid0 pb) = 4 \<and> length (app_data pb) = 4"

text \<open>
  \<^verbatim>\<open>NciModeParam\<close> is a C union; the match predicate reads its \<^verbatim>\<open>poll_a\<close> and
  \<^verbatim>\<open>poll_b\<close> members. The record gives each member its own value, which covers
  every content of the union.
\<close>

record NciModeParam =
  poll_a :: NciModeParamPollA
  poll_b :: NciModeParamPollB

text \<open>
  \<^verbatim>\<open>NciIntfActivationNtf\<close>, the fields the adapter reads. \<^verbatim>\<open>mode_param\<close> is a
  pointer that is NULL when the NCI core could not parse the bytes.
\<close>

record NciIntfActivationNtf =
  ntf_rf_intf :: NCI_RF_INTERFACE
  ntf_protocol :: NCI_PROTOCOL
  ntf_mode :: NCI_MODE
  mode_param_bytes :: "byte list"
  ntf_mode_param :: "NciModeParam option"
  activation_param_bytes :: "byte list"

text \<open>\<^verbatim>\<open>NciAdapterIntfInfo\<close> (nci_adapter.c, line 69).\<close>

record NciAdapterIntfInfo =
  rf_intf :: NCI_RF_INTERFACE
  protocol :: NCI_PROTOCOL
  mode :: NCI_MODE
  mode_param :: "byte list"
  activation_param :: "byte list"
  mode_param_parsed :: "NciModeParam option"

section \<open>IntfInfo and the match predicate\<close>

text \<open>\<^verbatim>\<open>memcmp(a, b, n) == 0\<close> on two buffers that hold at least \<open>n\<close> bytes.\<close>

definition memcmp_eq :: "byte list \<Rightarrow> byte list \<Rightarrow> nat \<Rightarrow> bool" where
  "memcmp_eq a b n \<longleftrightarrow> take n a = take n b"

definition RANDOM_UID_SIZE :: byte where
  "RANDOM_UID_SIZE = 4"

definition RANDOM_UID_START_BYTE :: byte where
  "RANDOM_UID_START_BYTE = 0x08"

text \<open>
  Modelled from the spec: \<^verbatim>\<open>nci_util_copy_mode_param\<close> belongs to the NCI core
  library; IntfInfo is "a deep copy" of the notification's fields, so the copy of
  the parsed parameters is the parameters themselves (NULL stays NULL).
\<close>

definition nci_util_copy_mode_param :: "NciModeParam option \<Rightarrow> NCI_MODE \<Rightarrow> NciModeParam option" where
  "nci_util_copy_mode_param mp m = mp"

definition nci_adapter_intf_info_new :: "NciIntfActivationNtf \<Rightarrow> NciAdapterIntfInfo" where
  "nci_adapter_intf_info_new ntf =
     \<lparr> rf_intf = ntf_rf_intf ntf,
       protocol = ntf_protocol ntf,
       mode = ntf_mode ntf,
       mode_param = mode_param_bytes ntf,
       activation_param = activation_param_bytes ntf,
       mode_param_parsed = nci_util_copy_mode_param (ntf_mode_param ntf) (ntf_mode ntf) \<rparr>"

definition mode_param_match_poll_a :: "NciModeParamPollA \<Rightarrow> NciModeParamPollA \<Rightarrow> bool" where
  "mode_param_match_poll_a pa1 pa2 =
     (if sel_res pa1 = sel_res pa2 \<and>
         sel_res_len pa1 = sel_res_len pa2 \<and>
         nfcid1_len pa1 = nfcid1_len pa2 \<and>
         memcmp_eq (sens_res pa1) (sens_res pa2) 2
      then
        (if nfcid1_len pa1 = RANDOM_UID_SIZE \<and>
            nfcid1 pa1 ! 0 = nfcid1 pa2 ! 0 \<and>
            nfcid1 pa2 ! 0 = RANDOM_UID_START_BYTE
         then True
         else memcmp_eq (nfcid1 pa1) (nfcid1 pa2) (unat (nfcid1_len pa2)))
      else False)"

text \<open>
  Modelled from the spec: \<^verbatim>\<open>gutil_data_equal\<close> belongs to the glib utility
  library; \<^verbatim>\<open>prot_info\<close> is compared "including length", so it is equality of
  the two byte blocks.
\<close>

definition gutil_data_equal :: "byte list \<Rightarrow> byte list \<Rightarrow> bool" where
  "gutil_data_equal d1 d2 \<longleftrightarrow> d1 = d2"

definition mode_param_match_poll_b :: "NciModeParamPollB \<Rightarrow> NciModeParamPollB \<Rightarrow> bool" where
  "mode_param_match_poll_b pb1 pb2 \<longleftrightarrow>
     fsc pb1 = fsc pb2 \<and>
     memcmp_eq (app_data pb1) (app_data pb2) 4 \<and>
     length (prot_info pb1) = length (prot_info pb2) \<and>
     gutil_data_equal (prot_info pb1) (prot_info pb2)"

text \<open>The last statement of \<^verbatim>\<open>nci_adapter_info_mode_params_matches\<close>.\<close>

definition mode_param_bytes_match :: "NciAdapterIntfInfo \<Rightarrow> NciIntfActivationNtf \<Rightarrow> bool" where
  "mode_param_bytes_match info ntf \<longleftrightarrow>
     length (mode_param info) = length (mode_param_bytes ntf) \<and>
     (length (mode_param_bytes ntf) = 0 \<or>
      memcmp_eq (mode_param info) (mode_param_bytes ntf) (length (mode_param_bytes ntf)))"

definition nci_adapter_info_mode_params_matches ::
    "NciAdapterIntfInfo \<Rightarrow> NciIntfActivationNtf \<Rightarrow> bool" where
  "nci_adapter_info_mode_params_matches info ntf =
     (case (mode_param_parsed info, ntf_mode_param ntf) of
        (Some mp1, Some mp2) \<Rightarrow>
          (case ntf_mode ntf of
             NCI_MODE_PASSIVE_POLL_A \<Rightarrow>
               (case ntf_rf_intf ntf of
                  NCI_RF_INTERFACE_FRAME \<Rightarrow> mode_param_match_poll_a (poll_a mp1) (poll_a mp2)
                | NCI_RF_INTERFACE_ISO_DEP \<Rightarrow> mode_param_match_poll_a (poll_a mp1) (poll_a mp2)
                | _ \<Rightarrow> mode_param_bytes_match info ntf)
           | NCI_MODE_PASSIVE_POLL_B \<Rightarrow>
               (case ntf_rf_intf ntf of
                  NCI_RF_INTERFACE_ISO_DEP \<Rightarrow> mode_param_match_poll_b (poll_b mp1) (poll_b mp2)
                | _ \<Rightarrow> mode_param_bytes_match info ntf)
           | _ \<Rightarrow> mode_param_bytes_match info ntf)
      | _ \<Rightarrow> mode_param_bytes_match info ntf)"

definition nci_adapter_intf_info_matches ::
    "NciAdapterIntfInfo option \<Rightarrow> NciIntfActivationNtf \<Rightarrow> bool" where
  "nci_adapter_intf_info_matches info_ptr ntf =
     (case info_ptr of
        None \<Rightarrow> False
      | Some info \<Rightarrow>
          rf_intf info = ntf_rf_intf ntf \<and>
          protocol info = ntf_protocol ntf \<and>
          mode info = ntf_mode ntf \<and>
          nci_adapter_info_mode_params_matches info ntf \<and>
          length (activation_param info) = length (activation_param_bytes ntf) \<and>
          (length (activation_param_bytes ntf) = 0 \<or>
           memcmp_eq (activation_param info) (activation_param_bytes ntf)
             (length (activation_param_bytes ntf))))"

section \<open>Constants of the NCI core headers\<close>

text \<open>
  The NCI core library declares these constants in its own headers. Their values
  are parameters of the model; the code only compares with them, masks with them
  and tests a technology mask for zero.
\<close>

type_synonym NCI_TECH = "32 word"

record NciDefs =
  NCI_STATIC_RF_CONN_ID :: byte
  NCI_STATUS_RF_FRAME_CORRUPTED :: byte
  NCI_TECH_NONE :: NCI_TECH
  NCI_TECH_A :: NCI_TECH
  NCI_TECH_B :: NCI_TECH
  NCI_TECH_F :: NCI_TECH
  NCI_TECH_A_LISTEN :: NCI_TECH
  NCI_TECH_B_LISTEN :: NCI_TECH
  NCI_TECH_ALL :: NCI_TECH

text \<open>
  \<^verbatim>\<open>NCI_TECH_NONE\<close> is the empty mask and the two listen masks are not empty:
  what \<^verbatim>\<open>if (ce_tech)\<close> in \<^verbatim>\<open>nci_adapter_deactivation\<close> relies on.
\<close>

definition nci_defs_ok :: "NciDefs \<Rightarrow> bool" where
  "nci_defs_ok K \<longleftrightarrow>
     NCI_TECH_NONE K = 0 \<and> NCI_TECH_A_LISTEN K \<noteq> 0 \<and> NCI_TECH_B_LISTEN K \<noteq> 0"

section \<open>Target data path (nci_target.c)\<close>

datatype NFC_TECHNOLOGY =
    NFC_TECHNOLOGY_UNKNOWN
  | NFC_TECHNOLOGY_A
  | NFC_TECHNOLOGY_B
  | NFC_TECHNOLOGY_F

datatype NFC_PROTOCOL =
    NFC_PROTOCOL_UNKNOWN
  | NFC_PROTOCOL_T1_TAG
  | NFC_PROTOCOL_T2_TAG
  | NFC_PROTOCOL_T3_TAG
  | NFC_PROTOCOL_T4A_TAG
  | NFC_PROTOCOL_T4B_TAG
  | NFC_PROTOCOL_NFC_DEP

datatype NFC_TRANSMIT_STATUS =
    NFC_TRANSMIT_STATUS_OK
  | NFC_TRANSMIT_STATUS_ERROR

text \<open>The two function pointers of \<^verbatim>\<open>struct nci_target\<close>, as tags.\<close>

datatype NciTargetPresenceCheckFunc = PRESENCE_CHECK_T2 | PRESENCE_CHECK_T4

datatype NciTargetTransmitFinishFunc =
    TRANSMIT_FINISH_FRAME
  | TRANSMIT_FINISH_ISO_DEP
  | TRANSMIT_FINISH_NFC_DEP

text \<open>
  What the target calls outside itself: \<^verbatim>\<open>nfc_target_transmit_done\<close> of the
  framework, and \<^verbatim>\<open>nci_core_send_data_msg\<close>, \<^verbatim>\<open>nci_core_cancel\<close> and
  \<^verbatim>\<open>nci_core_remove_all_handlers\<close> of the NCI core. Log output is left out.
\<close>

datatype target_call =
    TRANSMIT_DONE NFC_TRANSMIT_STATUS "byte list"
  | NCI_SEND_DATA_MSG byte "byte list"
  | NCI_CANCEL guint
  | NCI_REMOVE_ALL_HANDLERS

text \<open>
  \<^verbatim>\<open>struct nci_target\<close>. \<open>adapter\<close> tells whether the weak pointer to the
  adapter is non-NULL; \<open>calls\<close> records, in order, the outside calls made so far.
\<close>

record NciTarget =
  target_technology :: NFC_TECHNOLOGY
  target_protocol :: NFC_PROTOCOL
  tx_timeout :: int
  adapter :: bool
  send_in_progress :: guint
  transmit_in_progress :: bool
  pending_reply :: "byte list option"
  presence_check_fn :: "NciTargetPresenceCheckFunc option"
  transmit_finish_fn :: "NciTargetTransmitFinishFunc option"
  calls :: "target_call list"

definition target_call :: "target_call \<Rightarrow> NciTarget \<Rightarrow> NciTarget" where
  "target_call c self = self\<lparr>calls := calls self @ [c]\<rparr>"

definition ISO_DEP_TRANSMIT_TIMEOUT_MS :: int where
  "ISO_DEP_TRANSMIT_TIMEOUT_MS = 2500"

definition nci_target_cancel_send :: "NciTarget \<Rightarrow> NciTarget" where
  "nci_target_cancel_send self =
     (if send_in_progress self \<noteq> 0 then
        (let s1 = (if adapter self then target_call (NCI_CANCEL (send_in_progress self)) self
                   else self);
             s2 = s1\<lparr>send_in_progress := 0\<rparr>
         in if pending_reply s2 \<noteq> None then s2\<lparr>pending_reply := None\<rparr> else s2)
      else self)"

definition nci_target_drop_adapter :: "NciTarget \<Rightarrow> NciTarget" where
  "nci_target_drop_adapter self =
     (if adapter self then
        (let s1 = nci_target_cancel_send self;
             s2 = target_call NCI_REMOVE_ALL_HANDLERS s1
         in s2\<lparr>adapter := False\<rparr>)
      else self)"

text \<open>
  The three finish functions return whether they delivered the result
  (\<^verbatim>\<open>gboolean\<close>), next to the target with the call recorded. The payload pointer
  and its length are the byte list. In the Frame function the \<^verbatim>\<open>switch\<close> over
  \<^verbatim>\<open>NCI_STATUS_OK\<close> and the \<^verbatim>\<open>NCI_STATUS_STATUS_OK_n_BIT\<close> values only decides
  whether a line is logged; both of its branches go on to deliver the payload.
\<close>

definition nci_target_transmit_finish_frame ::
    "NciDefs \<Rightarrow> byte list \<Rightarrow> NciTarget \<Rightarrow> bool \<times> NciTarget" where
  "nci_target_transmit_finish_frame K payload self =
     (if length payload > 0 then
        (let status = payload ! (length payload - 1)
         in if status \<noteq> NCI_STATUS_RF_FRAME_CORRUPTED K then
              (True, target_call (TRANSMIT_DONE NFC_TRANSMIT_STATUS_OK
                                    (take (length payload - 1) payload)) self)
            else (False, self))
      else (False, self))"

definition nci_target_transmit_finish_iso_dep ::
    "byte list \<Rightarrow> NciTarget \<Rightarrow> bool \<times> NciTarget" where
  "nci_target_transmit_finish_iso_dep payload self =
     (True, target_call (TRANSMIT_DONE NFC_TRANSMIT_STATUS_OK payload) self)"

definition nci_target_transmit_finish_nfc_dep ::
    "byte list \<Rightarrow> NciTarget \<Rightarrow> bool \<times> NciTarget" where
  "nci_target_transmit_finish_nfc_dep payload self =
     (True, target_call (TRANSMIT_DONE NFC_TRANSMIT_STATUS_OK payload) self)"

fun call_transmit_finish_fn ::
    "NciDefs \<Rightarrow> NciTargetTransmitFinishFunc \<Rightarrow> byte list \<Rightarrow> NciTarget \<Rightarrow> bool \<times> NciTarget" where
  "call_transmit_finish_fn K TRANSMIT_FINISH_FRAME payload self =
     nci_target_transmit_finish_frame K payload self"
| "call_transmit_finish_fn K TRANSMIT_FINISH_ISO_DEP payload self =
     nci_target_transmit_finish_iso_dep payload self"
| "call_transmit_finish_fn K TRANSMIT_FINISH_NFC_DEP payload self =
     nci_target_transmit_finish_nfc_dep payload self"

definition nci_target_finish_transmit :: "NciDefs \<Rightarrow> byte list \<Rightarrow> NciTarget \<Rightarrow> NciTarget" where
  "nci_target_finish_transmit K payload self =
     (let s1 = self\<lparr>transmit_in_progress := False\<rparr>
      in case transmit_finish_fn s1 of
           None \<Rightarrow> target_call (TRANSMIT_DONE NFC_TRANSMIT_STATUS_ERROR []) s1
         | Some fn \<Rightarrow>
             (case call_transmit_finish_fn K fn payload s1 of
                (True, s2) \<Rightarrow> s2
              | (False, s2) \<Rightarrow> target_call (TRANSMIT_DONE NFC_TRANSMIT_STATUS_ERROR []) s2))"

text \<open>
  The send-completion callback. \<^verbatim>\<open>GASSERT\<close> only logs, so the body runs whatever
  \<^verbatim>\<open>send_in_progress\<close> holds.
\<close>

definition nci_target_data_sent :: "NciDefs \<Rightarrow> bool \<Rightarrow> NciTarget \<Rightarrow> NciTarget" where
  "nci_target_data_sent K success self =
     (let s1 = self\<lparr>send_in_progress := 0\<rparr>
      in case pending_reply s1 of
           Some reply \<Rightarrow> nci_target_finish_transmit K reply (s1\<lparr>pending_reply := None\<rparr>)
         | None \<Rightarrow> s1)"

definition nci_target_data_packet_handler ::
    "NciDefs \<Rightarrow> byte \<Rightarrow> byte list \<Rightarrow> NciTarget \<Rightarrow> NciTarget" where
  "nci_target_data_packet_handler K cid data self =
     (if cid = NCI_STATIC_RF_CONN_ID K \<and> transmit_in_progress self \<and>
         pending_reply self = None then
        (if send_in_progress self \<noteq> 0 then self\<lparr>pending_reply := Some data\<rparr>
         else nci_target_finish_transmit K data self)
      else self)"

text \<open>
  \<^verbatim>\<open>nci_target_new\<close>; the adapter pointer passed in is not NULL. A new object
  is zero-filled by the object system.
\<close>

definition nci_target_new :: "NciIntfActivationNtf \<Rightarrow> NciTarget option" where
  "nci_target_new ntf =
     (let tech = (case ntf_mode ntf of
                    NCI_MODE_PASSIVE_POLL_A \<Rightarrow> NFC_TECHNOLOGY_A
                  | NCI_MODE_ACTIVE_POLL_A \<Rightarrow> NFC_TECHNOLOGY_A
                  | NCI_MODE_PASSIVE_POLL_B \<Rightarrow> NFC_TECHNOLOGY_B
                  | NCI_MODE_PASSIVE_POLL_F \<Rightarrow> NFC_TECHNOLOGY_F
                  | NCI_MODE_ACTIVE_POLL_F \<Rightarrow> NFC_TECHNOLOGY_F
                  | _ \<Rightarrow> NFC_TECHNOLOGY_UNKNOWN)
      in if tech \<noteq> NFC_TECHNOLOGY_UNKNOWN then
           (let (proto, presence_check) =
                  (case ntf_protocol ntf of
                     NCI_PROTOCOL_T1T \<Rightarrow> (NFC_PROTOCOL_T1_TAG, None)
                   | NCI_PROTOCOL_T2T \<Rightarrow> (NFC_PROTOCOL_T2_TAG, Some PRESENCE_CHECK_T2)
                   | NCI_PROTOCOL_T3T \<Rightarrow> (NFC_PROTOCOL_T3_TAG, None)
                   | NCI_PROTOCOL_ISO_DEP \<Rightarrow>
                       ((case tech of
                           NFC_TECHNOLOGY_A \<Rightarrow> NFC_PROTOCOL_T4A_TAG
                         | NFC_TECHNOLOGY_B \<Rightarrow> NFC_PROTOCOL_T4B_TAG
                         | _ \<Rightarrow> NFC_PROTOCOL_UNKNOWN), Some PRESENCE_CHECK_T4)
                   | NCI_PROTOCOL_NFC_DEP \<Rightarrow> (NFC_PROTOCOL_NFC_DEP, None)
                   | _ \<Rightarrow> (NFC_PROTOCOL_UNKNOWN, None))
            in if proto \<noteq> NFC_PROTOCOL_UNKNOWN then
                 (let (transmit_finish, timeout) =
                        (case ntf_rf_intf ntf of
                           NCI_RF_INTERFACE_FRAME \<Rightarrow>
                             (case ntf_protocol ntf of
                                NCI_PROTOCOL_NFC_DEP \<Rightarrow> (None, -1)
                              | NCI_PROTOCOL_ISO_DEP \<Rightarrow> (None, -1)
                              | _ \<Rightarrow> (Some TRANSMIT_FINISH_FRAME, -1))
                         | NCI_RF_INTERFACE_ISO_DEP \<Rightarrow>
                             (Some TRANSMIT_FINISH_ISO_DEP, ISO_DEP_TRANSMIT_TIMEOUT_MS)
                         | NCI_RF_INTERFACE_NFC_DEP \<Rightarrow> (Some TRANSMIT_FINISH_NFC_DEP, 0)
                         | _ \<Rightarrow> (None, -1))
                  in if transmit_finish \<noteq> None then
                       Some \<lparr> target_technology = tech,
                              target_protocol = proto,
                              tx_timeout = timeout,
                              adapter = True,
                              send_in_progress = 0,
                              transmit_in_progress = False,
                              pending_reply = None,
                              presence_check_fn = presence_check,
                              transmit_finish_fn = transmit_finish,
                              calls = [] \<rparr>
                     else None)
               else None)
         else None)"

text \<open>
  \<^verbatim>\<open>nci_target_transmit\<close>. \<open>send_id\<close> is what \<^verbatim>\<open>nci_core_send_data_msg\<close>
  returns: the id of the send, or zero when the NCI core refuses it.
\<close>

definition nci_target_transmit ::
    "NciDefs \<Rightarrow> byte list \<Rightarrow> guint \<Rightarrow> NciTarget \<Rightarrow> bool \<times> NciTarget" where
  "nci_target_transmit K data send_id self =
     (if adapter self then
        (let s1 = target_call (NCI_SEND_DATA_MSG (NCI_STATIC_RF_CONN_ID K) data) self;
             s2 = s1\<lparr>send_in_progress := send_id\<rparr>
         in if send_in_progress s2 \<noteq> 0 then (True, s2\<lparr>transmit_in_progress := True\<rparr>)
            else (False, s2))
      else (False, self))"

definition nci_target_cancel_transmit :: "NciTarget \<Rightarrow> NciTarget" where
  "nci_target_cancel_transmit self =
     nci_target_cancel_send (self\<lparr>transmit_in_progress := False\<rparr>)"

definition nci_target_gone :: "NciTarget \<Rightarrow> NciTarget" where
  "nci_target_gone self = nci_target_drop_adapter self"

text \<open>
  What can happen to a target between two returns to the main loop. The
  framework calls \<^verbatim>\<open>transmit\<close> only when nothing is in flight (the two
  \<^verbatim>\<open>GASSERT\<close>s of \<^verbatim>\<open>nci_target_transmit\<close>), and the NCI core completes only a
  send that is outstanding (the \<^verbatim>\<open>GASSERT\<close> of \<^verbatim>\<open>nci_target_data_sent\<close>).
  \<open>T_ADAPTER_FINALIZED\<close> is the weak pointer to the adapter clearing itself.
\<close>

datatype target_op =
    T_TRANSMIT "byte list" guint
  | T_DATA_SENT bool
  | T_DATA_PACKET byte "byte list"
  | T_CANCEL_TRANSMIT
  | T_GONE
  | T_ADAPTER_FINALIZED

fun target_step :: "NciDefs \<Rightarrow> target_op \<Rightarrow> NciTarget \<Rightarrow> NciTarget option" where
  "target_step K (T_TRANSMIT data send_id) self =
     (if send_in_progress self = 0 \<and> \<not> transmit_in_progress self
      then Some (snd (nci_target_transmit K data send_id self)) else None)"
| "target_step K (T_DATA_SENT success) self =
     (if send_in_progress self \<noteq> 0 then Some (nci_target_data_sent K success self) else None)"
| "target_step K (T_DATA_PACKET cid data) self =
     Some (nci_target_data_packet_handler K cid data self)"
| "target_step K T_CANCEL_TRANSMIT self = Some (nci_target_cancel_transmit self)"
| "target_step K T_GONE self = Some (nci_target_gone self)"
| "target_step K T_ADAPTER_FINALIZED self = Some (self\<lparr>adapter := False\<rparr>)"

inductive target_reachable :: "NciDefs \<Rightarrow> NciTarget \<Rightarrow> bool" for K :: NciDefs where
  target_new: "nci_target_new ntf = Some self \<Longrightarrow> target_reachable K self"
| target_next: "target_reachable K self \<Longrightarrow> target_step K op self = Some self' \<Longrightarrow>
     target_reachable K self'"

section \<open>Adapter state (nci_adapter.c)\<close>

datatype NCI_ADAPTER_STATE =
    NCI_ADAPTER_IDLE
  | NCI_ADAPTER_HAVE_TARGET
  | NCI_ADAPTER_HAVE_INITIATOR
  | NCI_ADAPTER_REACTIVATING_TARGET
  | NCI_ADAPTER_REACTIVATING_CE
  | NCI_ADAPTER_REACTIVATED_CE

text \<open>
  \<^verbatim>\<open>NCI_STATE\<close> of the NCI core, in the order of its declaration, which
  \<^verbatim>\<open>current_state > NCI_RFST_IDLE\<close> reads.
\<close>

datatype NCI_STATE =
    NCI_STATE_INIT
  | NCI_STATE_ERROR
  | NCI_STATE_STOP
  | NCI_RFST_IDLE
  | NCI_RFST_DISCOVERY
  | NCI_RFST_W4_ALL_DISCOVERIES
  | NCI_RFST_W4_HOST_SELECT
  | NCI_RFST_POLL_ACTIVE
  | NCI_RFST_LISTEN_ACTIVE
  | NCI_RFST_LISTEN_SLEEP

fun nci_state_value :: "NCI_STATE \<Rightarrow> nat" where
  "nci_state_value NCI_STATE_INIT = 0"
| "nci_state_value NCI_STATE_ERROR = 1"
| "nci_state_value NCI_STATE_STOP = 2"
| "nci_state_value NCI_RFST_IDLE = 3"
| "nci_state_value NCI_RFST_DISCOVERY = 4"
| "nci_state_value NCI_RFST_W4_ALL_DISCOVERIES = 5"
| "nci_state_value NCI_RFST_W4_HOST_SELECT = 6"
| "nci_state_value NCI_RFST_POLL_ACTIVE = 7"
| "nci_state_value NCI_RFST_LISTEN_ACTIVE = 8"
| "nci_state_value NCI_RFST_LISTEN_SLEEP = 9"

text \<open>The two fields of \<^verbatim>\<open>NciCore\<close> that the adapter reads.\<close>

record NciCore =
  current_state :: NCI_STATE
  next_state :: NCI_STATE

text \<open>
  Objects of the framework are known by their address. \<^verbatim>\<open>NfcInitiator\<close> also
  shows its \<^verbatim>\<open>technology\<close> field; of the parent \<^verbatim>\<open>NfcAdapter\<close> the three
  flags that the adapter reads.
\<close>

type_synonym ptr = nat

record NfcInitiator =
  initiator_ptr :: ptr
  technology :: NFC_TECHNOLOGY

record NfcAdapter =
  enabled :: bool
  powered :: bool
  power_requested :: bool

text \<open>
  Calls out of the adapter, recorded in order: \<^verbatim>\<open>nci_core_set_state\<close>,
  \<^verbatim>\<open>nci_core_set_tech\<close>, \<^verbatim>\<open>nfc_target_cancel_transmit\<close>, and the lifecycle
  notifications \<^verbatim>\<open>nfc_target_gone\<close>, \<^verbatim>\<open>nfc_target_reactivated\<close>,
  \<^verbatim>\<open>nfc_initiator_gone\<close>, \<^verbatim>\<open>nfc_initiator_reactivated\<close>. Log output and
  reference counting are left out.
\<close>

datatype adapter_call =
    NCI_SET_STATE NCI_STATE
  | NCI_SET_TECH NCI_TECH
  | TARGET_CANCEL_TRANSMIT ptr guint
  | TARGET_GONE ptr
  | TARGET_REACTIVATED "ptr option"
  | INITIATOR_GONE NfcInitiator
  | INITIATOR_REACTIVATED "NfcInitiator option"

text \<open>
  \<^verbatim>\<open>NciAdapter\<close> with its \<^verbatim>\<open>NciAdapterPriv\<close>, without the mode-request fields
  (\<^verbatim>\<open>desired_mode\<close>, \<^verbatim>\<open>current_mode\<close>, \<^verbatim>\<open>mode_change_pending\<close>,
  \<^verbatim>\<open>mode_check_id\<close>) and the parameter list, which only the mode and parameter
  functions touch. A timer is \<open>None\<close> when its source id is zero and
  \<open>Some ms\<close> when it is armed with that period. \<open>out\<close> records the calls made.
\<close>

record NciAdapter =
  parent :: NfcAdapter
  target :: "ptr option"
  nci :: "NciCore option"
  presence_check_id :: guint
  presence_check_timer :: "nat option"
  active_intf :: "NciAdapterIntfInfo option"
  initiator :: "NfcInitiator option"
  internal_state :: NCI_ADAPTER_STATE
  ce_reactivation_timer :: "nat option"
  supported_techs :: NCI_TECH
  active_techs :: NCI_TECH
  active_tech_mask :: NCI_TECH
  tag :: "ptr option"
  host :: "ptr option"
  peer :: "ptr option"
  out :: "adapter_call list"

definition adapter_call :: "adapter_call \<Rightarrow> NciAdapter \<Rightarrow> NciAdapter" where
  "adapter_call c self = self\<lparr>out := out self @ [c]\<rparr>"

definition PRESENCE_CHECK_PERIOD_MS :: nat where
  "PRESENCE_CHECK_PERIOD_MS = 250"

definition CE_REACTIVATION_TIMEOUT_MS :: nat where
  "CE_REACTIVATION_TIMEOUT_MS = 1500"

text \<open>
  What the framework and the object system answer during one activation: the
  address of a new target object, the objects returned by the tag, peer and host
  factories (NULL when the factory refuses), and the initiator returned by
  \<^verbatim>\<open>nci_initiator_new\<close>, whose source file is not part of this development.
\<close>

record Framework =
  new_target :: ptr
  add_peer_initiator_a :: "ptr option"
  add_peer_initiator_f :: "ptr option"
  add_tag_t2 :: "ptr option"
  add_tag_t4a :: "ptr option"
  add_tag_t4b :: "ptr option"
  add_other_tag2 :: "ptr option"
  nci_initiator_new :: "NfcInitiator option"
  add_peer_target_a :: "ptr option"
  add_peer_target_f :: "ptr option"
  add_host :: "ptr option"

definition nci_adapter_set_internal_state :: "NCI_ADAPTER_STATE \<Rightarrow> NciAdapter \<Rightarrow> NciAdapter" where
  "nci_adapter_set_internal_state st self =
     (if internal_state self \<noteq> st then self\<lparr>internal_state := st\<rparr> else self)"

definition nci_adapter_set_active_tag :: "ptr option \<Rightarrow> NciAdapter \<Rightarrow> NciAdapter" where
  "nci_adapter_set_active_tag obj self = (if tag self \<noteq> obj then self\<lparr>tag := obj\<rparr> else self)"

definition nci_adapter_set_active_peer :: "ptr option \<Rightarrow> NciAdapter \<Rightarrow> NciAdapter" where
  "nci_adapter_set_active_peer obj self = (if peer self \<noteq> obj then self\<lparr>peer := obj\<rparr> else self)"

definition nci_adapter_set_active_host :: "ptr option \<Rightarrow> NciAdapter \<Rightarrow> NciAdapter" where
  "nci_adapter_set_active_host obj self = (if host self \<noteq> obj then self\<lparr>host := obj\<rparr> else self)"

definition nci_adapter_clear_active_intf :: "NciAdapter \<Rightarrow> NciAdapter" where
  "nci_adapter_clear_active_intf self =
     (if active_intf self \<noteq> None then self\<lparr>active_intf := None\<rparr> else self)"

definition nci_adapter_drop_target :: "NciAdapter \<Rightarrow> NciAdapter" where
  "nci_adapter_drop_target self =
     (case target self of
        None \<Rightarrow> self
      | Some t \<Rightarrow>
          (let s1 = self\<lparr>target := None\<rparr>;
               s2 = nci_adapter_clear_active_intf s1;
               s3 = s2\<lparr>presence_check_timer := None\<rparr>;
               s4 = nci_adapter_set_active_peer None s3;
               s5 = nci_adapter_set_active_tag None s4;
               s6 = (if presence_check_id s5 \<noteq> 0
                     then (adapter_call (TARGET_CANCEL_TRANSMIT t (presence_check_id s5)) s5)
                             \<lparr>presence_check_id := 0\<rparr>
                     else s5)
           in adapter_call (TARGET_GONE t) s6))"

definition nci_adapter_drop_initiator :: "NciDefs \<Rightarrow> NciAdapter \<Rightarrow> NciAdapter" where
  "nci_adapter_drop_initiator K self =
     (case initiator self of
        None \<Rightarrow> self
      | Some i \<Rightarrow>
          (let s1 = self\<lparr>initiator := None\<rparr>;
               s2 = s1\<lparr>active_tech_mask := NCI_TECH_ALL K\<rparr>;
               s3 = nci_adapter_clear_active_intf s2;
               s4 = s3\<lparr>ce_reactivation_timer := None\<rparr>;
               s5 = nci_adapter_set_active_peer None s4;
               s6 = nci_adapter_set_active_host None s5;
               s7 = adapter_call (NCI_SET_TECH (active_techs s6)) s6
           in adapter_call (INITIATOR_GONE i) s7))"

definition nci_adapter_drop_all :: "NciDefs \<Rightarrow> NciAdapter \<Rightarrow> NciAdapter" where
  "nci_adapter_drop_all K self = nci_adapter_drop_initiator K (nci_adapter_drop_target self)"

definition nci_adapter_need_presence_checks :: "NciAdapter \<Rightarrow> bool" where
  "nci_adapter_need_presence_checks self \<longleftrightarrow>
     target self \<noteq> None \<and>
     (case active_intf self of None \<Rightarrow> False | Some intf \<Rightarrow> protocol intf \<noteq> NCI_PROTOCOL_NFC_DEP)"

definition nci_adapter_deactivate_target :: "ptr option \<Rightarrow> NciAdapter \<Rightarrow> NciAdapter" where
  "nci_adapter_deactivate_target tgt self =
     (if target self = tgt \<and> tgt \<noteq> None then
        (let s1 = nci_adapter_drop_target self
         in if powered (parent s1) then adapter_call (NCI_SET_STATE NCI_RFST_DISCOVERY) s1 else s1)
      else self)"

definition nci_adapter_deactivate_initiator ::
    "NciDefs \<Rightarrow> ptr option \<Rightarrow> NciAdapter \<Rightarrow> NciAdapter" where
  "nci_adapter_deactivate_initiator K ini self =
     (if ini \<noteq> None then
        (if map_option initiator_ptr (initiator self) = ini then
           (let s1 = nci_adapter_drop_initiator K self
            in if powered (parent s1) then adapter_call (NCI_SET_STATE NCI_RFST_DISCOVERY) s1
               else s1)
         else self)
      else self)"

definition nci_adapter_presence_check_done :: "ptr option \<Rightarrow> bool \<Rightarrow> NciAdapter \<Rightarrow> NciAdapter" where
  "nci_adapter_presence_check_done tgt ok self =
     (let s1 = self\<lparr>presence_check_id := 0\<rparr>
      in if \<not> ok then nci_adapter_deactivate_target tgt s1 else s1)"

text \<open>
  The timer callback reads \<^verbatim>\<open>self->target->sequence\<close>: with no target it
  dereferences NULL, which is the result \<open>None\<close>. \<open>do_presence_check\<close> is what
  the sequence of the target allows and \<open>check_id\<close> what
  \<^verbatim>\<open>nci_target_presence_check\<close> returns (zero when the check did not start).
\<close>

definition nci_adapter_presence_check_timer ::
    "bool \<Rightarrow> guint \<Rightarrow> NciAdapter \<Rightarrow> NciAdapter option" where
  "nci_adapter_presence_check_timer do_presence_check check_id self =
     (case target self of
        None \<Rightarrow> None
      | Some t \<Rightarrow>
          Some (if presence_check_id self = 0 \<and> do_presence_check then
                  (let s1 = self\<lparr>presence_check_id := check_id\<rparr>
                   in if presence_check_id s1 = 0
                      then adapter_call (NCI_SET_STATE NCI_RFST_DISCOVERY)
                             (s1\<lparr>presence_check_timer := None\<rparr>)
                      else s1)
                else self))"

definition nci_adapter_state_check :: "NciAdapter \<Rightarrow> NciAdapter" where
  "nci_adapter_state_check self =
     (case nci self of
        None \<Rightarrow> self
      | Some n \<Rightarrow>
          if current_state n = NCI_RFST_IDLE \<and> next_state n = NCI_RFST_IDLE then
            (if enabled (parent self) \<and> powered (parent self) \<and> power_requested (parent self)
             then adapter_call (NCI_SET_STATE NCI_RFST_DISCOVERY) self else self)
          else self)"

subsection \<open>Object detection\<close>

text \<open>
  Each \<open>create\<close> function returns the object it stored in the weak pointer of
  the adapter; the parameter conversions it passes to the factory are not kept.
\<close>

definition nci_adapter_create_known_tag ::
    "Framework \<Rightarrow> NciIntfActivationNtf \<Rightarrow> NciAdapter \<Rightarrow> ptr option \<times> NciAdapter" where
  "nci_adapter_create_known_tag fw ntf self =
     (let t = (case ntf_protocol ntf of
                 NCI_PROTOCOL_T2T \<Rightarrow>
                   (if ntf_rf_intf ntf = NCI_RF_INTERFACE_FRAME then
                      (case ntf_mode ntf of
                         NCI_MODE_PASSIVE_POLL_A \<Rightarrow> add_tag_t2 fw
                       | NCI_MODE_ACTIVE_POLL_A \<Rightarrow> add_tag_t2 fw
                       | _ \<Rightarrow> None)
                    else None)
               | NCI_PROTOCOL_ISO_DEP \<Rightarrow>
                   (if ntf_rf_intf ntf = NCI_RF_INTERFACE_ISO_DEP then
                      (case ntf_mode ntf of
                         NCI_MODE_PASSIVE_POLL_A \<Rightarrow> add_tag_t4a fw
                       | NCI_MODE_PASSIVE_POLL_B \<Rightarrow> add_tag_t4b fw
                       | _ \<Rightarrow> None)
                    else None)
               | _ \<Rightarrow> None)
      in (t, nci_adapter_set_active_tag t self))"

definition nci_adapter_create_peer_initiator ::
    "Framework \<Rightarrow> NciIntfActivationNtf \<Rightarrow> NciAdapter \<Rightarrow> ptr option \<times> NciAdapter" where
  "nci_adapter_create_peer_initiator fw ntf self =
     (let p = (case ntf_protocol ntf of
                 NCI_PROTOCOL_NFC_DEP \<Rightarrow>
                   (if ntf_rf_intf ntf = NCI_RF_INTERFACE_NFC_DEP then
                      (case ntf_mode ntf of
                         NCI_MODE_ACTIVE_POLL_A \<Rightarrow> add_peer_initiator_a fw
                       | NCI_MODE_PASSIVE_POLL_A \<Rightarrow> add_peer_initiator_a fw
                       | NCI_MODE_ACTIVE_POLL_F \<Rightarrow> add_peer_initiator_f fw
                       | NCI_MODE_PASSIVE_POLL_F \<Rightarrow> add_peer_initiator_f fw
                       | _ \<Rightarrow> None)
                    else None)
               | _ \<Rightarrow> None)
      in (p, nci_adapter_set_active_peer p self))"

definition nci_adapter_create_peer_target ::
    "Framework \<Rightarrow> NciIntfActivationNtf \<Rightarrow> NciAdapter \<Rightarrow> ptr option \<times> NciAdapter" where
  "nci_adapter_create_peer_target fw ntf self =
     (let p = (case ntf_rf_intf ntf of
                 NCI_RF_INTERFACE_NFC_DEP \<Rightarrow>
                   (case ntf_mode ntf of
                      NCI_MODE_ACTIVE_LISTEN_A \<Rightarrow> add_peer_target_a fw
                    | NCI_MODE_PASSIVE_LISTEN_A \<Rightarrow> add_peer_target_a fw
                    | NCI_MODE_PASSIVE_LISTEN_F \<Rightarrow> add_peer_target_f fw
                    | NCI_MODE_ACTIVE_LISTEN_F \<Rightarrow> add_peer_target_f fw
                    | _ \<Rightarrow> None)
               | _ \<Rightarrow> None)
      in (p, nci_adapter_set_active_peer p self))"

definition nci_adapter_create_host ::
    "Framework \<Rightarrow> NciIntfActivationNtf \<Rightarrow> NciAdapter \<Rightarrow> ptr option \<times> NciAdapter" where
  "nci_adapter_create_host fw ntf self =
     (let h = (case ntf_rf_intf ntf of
                 NCI_RF_INTERFACE_ISO_DEP \<Rightarrow> add_host fw
               | _ \<Rightarrow> None)
      in (h, nci_adapter_set_active_host h self))"

subsection \<open>State machine events\<close>

definition nci_adapter_start_ce_reactivation_timer :: "NciAdapter \<Rightarrow> NciAdapter" where
  "nci_adapter_start_ce_reactivation_timer self =
     self\<lparr>ce_reactivation_timer := Some CE_REACTIVATION_TIMEOUT_MS\<rparr>"

definition nci_adapter_ce_reactivation_timeout :: "NciDefs \<Rightarrow> NciAdapter \<Rightarrow> NciAdapter" where
  "nci_adapter_ce_reactivation_timeout K self =
     (let s1 = self\<lparr>ce_reactivation_timer := None\<rparr>;
          s2 = nci_adapter_set_internal_state NCI_ADAPTER_IDLE s1
      in nci_adapter_drop_all K s2)"

text \<open>
  The \<^verbatim>\<open>switch (priv->internal_state)\<close> of \<^verbatim>\<open>nci_adapter_activation\<close>. Its
  last case is the shared branch of REACTIVATING_CE and REACTIVATED_CE.
\<close>

definition activation_update_state ::
    "NciDefs \<Rightarrow> NciIntfActivationNtf \<Rightarrow> NciAdapter \<Rightarrow> NciAdapter" where
  "activation_update_state K ntf self =
     (case internal_state self of
        NCI_ADAPTER_IDLE \<Rightarrow> self
      | NCI_ADAPTER_HAVE_TARGET \<Rightarrow>
          nci_adapter_drop_target (nci_adapter_set_internal_state NCI_ADAPTER_IDLE self)
      | NCI_ADAPTER_HAVE_INITIATOR \<Rightarrow>
          (if nci_adapter_intf_info_matches (active_intf self) ntf then
             (if host self \<noteq> None then
                (let s1 = nci_adapter_set_internal_state NCI_ADAPTER_REACTIVATED_CE self
                 in adapter_call (INITIATOR_REACTIVATED (initiator s1)) s1)
              else self)
           else nci_adapter_drop_initiator K
                  (nci_adapter_set_internal_state NCI_ADAPTER_IDLE self))
      | NCI_ADAPTER_REACTIVATING_TARGET \<Rightarrow>
          (if nci_adapter_intf_info_matches (active_intf self) ntf then
             (let s1 = nci_adapter_set_internal_state NCI_ADAPTER_HAVE_TARGET self
              in adapter_call (TARGET_REACTIVATED (target s1)) s1)
           else nci_adapter_drop_target
                  (nci_adapter_set_internal_state NCI_ADAPTER_IDLE self))
      | _ \<Rightarrow>
          (if nci_adapter_intf_info_matches (active_intf self) ntf then
             (let s1 = (if internal_state self = NCI_ADAPTER_REACTIVATED_CE then self
                        else nci_adapter_set_internal_state NCI_ADAPTER_REACTIVATED_CE self)
              in adapter_call (INITIATOR_REACTIVATED (initiator s1)) s1)
           else nci_adapter_drop_initiator K
                  (nci_adapter_set_internal_state NCI_ADAPTER_IDLE self)))"

text \<open>The object detection block of \<^verbatim>\<open>nci_adapter_activation\<close>.\<close>

definition activation_detect_object ::
    "Framework \<Rightarrow> NciIntfActivationNtf \<Rightarrow> NciAdapter \<Rightarrow> NciAdapter" where
  "activation_detect_object fw ntf self =
     (if target self = None \<and> initiator self = None then
        (case nci_target_new ntf of
           Some obj \<Rightarrow>
             (let s1 = self\<lparr>target := Some (new_target fw)\<rparr>;
                  s2 = nci_adapter_set_internal_state NCI_ADAPTER_HAVE_TARGET s1;
                  (p, s3) = nci_adapter_create_peer_initiator fw ntf s2
              in if p = None then
                   (let s4 = s3\<lparr>active_intf := Some (nci_adapter_intf_info_new ntf)\<rparr>;
                        (t, s5) = nci_adapter_create_known_tag fw ntf s4
                    in if t = None then nci_adapter_set_active_tag (add_other_tag2 fw) s5
                       else s5)
                 else s3)
         | None \<Rightarrow>
             (case nci_initiator_new fw of
                Some ini \<Rightarrow>
                  (let (p, s1) = nci_adapter_create_peer_target fw ntf self;
                       (keep, s2) = (if p \<noteq> None then (True, s1)
                                     else (let (h, s') = nci_adapter_create_host fw ntf s1
                                           in (h \<noteq> None, s')))
                   in if keep then
                        (let s3 = s2\<lparr>initiator := Some ini\<rparr>;
                             s4 = s3\<lparr>active_intf := Some (nci_adapter_intf_info_new ntf)\<rparr>
                         in nci_adapter_set_internal_state NCI_ADAPTER_HAVE_INITIATOR s4)
                      else s2)
              | None \<Rightarrow> self))
      else self)"

definition nci_adapter_activation ::
    "NciDefs \<Rightarrow> Framework \<Rightarrow> NciIntfActivationNtf \<Rightarrow> NciAdapter \<Rightarrow> NciAdapter" where
  "nci_adapter_activation K fw ntf self =
     (let s1 = self\<lparr>ce_reactivation_timer := None\<rparr>;
          s2 = activation_update_state K ntf s1;
          s3 = activation_detect_object fw ntf s2;
          s4 = (if nci_adapter_need_presence_checks s3 then
                  (if presence_check_timer s3 = None
                   then s3\<lparr>presence_check_timer := Some PRESENCE_CHECK_PERIOD_MS\<rparr>
                   else s3)
                else s3\<lparr>presence_check_timer := None\<rparr>)
      in if target s4 = None \<and> initiator s4 = None
         then adapter_call (NCI_SET_STATE NCI_RFST_IDLE) s4 else s4)"

text \<open>
  \<^verbatim>\<open>nci_adapter_deactivation\<close>. With a host and no initiator,
  \<^verbatim>\<open>priv->initiator->technology\<close> dereferences NULL: the result \<open>None\<close>.
\<close>

definition nci_adapter_deactivation :: "NciDefs \<Rightarrow> NciAdapter \<Rightarrow> NciAdapter option" where
  "nci_adapter_deactivation K self =
     (case internal_state self of
        NCI_ADAPTER_REACTIVATING_TARGET \<Rightarrow> Some self
      | NCI_ADAPTER_REACTIVATING_CE \<Rightarrow> Some self
      | NCI_ADAPTER_REACTIVATED_CE \<Rightarrow>
          Some (nci_adapter_start_ce_reactivation_timer
                  (nci_adapter_set_internal_state NCI_ADAPTER_REACTIVATING_CE self))
      | NCI_ADAPTER_HAVE_INITIATOR \<Rightarrow>
          (if host self \<noteq> None then
             (case initiator self of
                None \<Rightarrow> None
              | Some ini \<Rightarrow>
                  (let ce_tech = (case technology ini of
                                    NFC_TECHNOLOGY_A \<Rightarrow> NCI_TECH_A_LISTEN K
                                  | NFC_TECHNOLOGY_B \<Rightarrow> NCI_TECH_B_LISTEN K
                                  | _ \<Rightarrow> NCI_TECH_NONE K);
                       s1 = nci_adapter_set_internal_state NCI_ADAPTER_REACTIVATING_CE self;
                       s2 = nci_adapter_start_ce_reactivation_timer s1
                   in Some (if ce_tech \<noteq> 0 then
                              (let tech = active_techs s2 AND ce_tech;
                                   s3 = s2\<lparr>active_tech_mask := ce_tech\<rparr>
                               in adapter_call (NCI_SET_TECH tech) s3)
                            else s2)))
           else Some (nci_adapter_drop_all K
                        (nci_adapter_set_internal_state NCI_ADAPTER_IDLE self)))
      | _ \<Rightarrow> Some (nci_adapter_drop_all K
                     (nci_adapter_set_internal_state NCI_ADAPTER_IDLE self)))"

text \<open>
  \<^verbatim>\<open>nci_adapter_next_state_changed\<close>; the mode check that ends it only touches
  the mode-request fields. The handler runs while the NCI core exists.
\<close>

definition nci_adapter_next_state_changed :: "NciDefs \<Rightarrow> NciAdapter \<Rightarrow> NciAdapter option" where
  "nci_adapter_next_state_changed K self =
     (case nci self of
        None \<Rightarrow> None
      | Some n \<Rightarrow>
          map_option nci_adapter_state_check
            (case next_state n of
               NCI_RFST_IDLE \<Rightarrow>
                 (if nci_state_value (current_state n) > nci_state_value NCI_RFST_IDLE
                  then nci_adapter_deactivation K self else Some self)
             | NCI_RFST_DISCOVERY \<Rightarrow>
                 (if current_state n \<noteq> NCI_RFST_IDLE
                  then nci_adapter_deactivation K self else Some self)
             | NCI_RFST_W4_ALL_DISCOVERIES \<Rightarrow> Some self
             | NCI_RFST_W4_HOST_SELECT \<Rightarrow> Some self
             | NCI_RFST_POLL_ACTIVE \<Rightarrow> Some self
             | NCI_RFST_LISTEN_ACTIVE \<Rightarrow> Some self
             | NCI_RFST_LISTEN_SLEEP \<Rightarrow> Some self
             | _ \<Rightarrow> Some (nci_adapter_drop_all K
                            (nci_adapter_set_internal_state NCI_ADAPTER_IDLE self))))"

definition nci_adapter_current_state_changed :: "NciAdapter \<Rightarrow> NciAdapter" where
  "nci_adapter_current_state_changed self = nci_adapter_state_check self"

subsection \<open>Requests of the upper layer\<close>

text \<open>
  \<^verbatim>\<open>nci_adapter_reactivate\<close>, called on an adapter that exists; \<open>tgt\<close> is the
  target pointer of the request.
\<close>

definition nci_adapter_reactivate :: "ptr option \<Rightarrow> NciAdapter \<Rightarrow> bool \<times> NciAdapter" where
  "nci_adapter_reactivate tgt self =
     (if target self = tgt \<and> tgt \<noteq> None then
        (case nci self of
           Some n \<Rightarrow>
             (if active_intf self \<noteq> None \<and>
                 internal_state self = NCI_ADAPTER_HAVE_TARGET \<and>
                 ((current_state n = NCI_RFST_POLL_ACTIVE \<and>
                   next_state n = NCI_RFST_POLL_ACTIVE) \<or>
                  (current_state n = NCI_RFST_LISTEN_ACTIVE \<and>
                   next_state n = NCI_RFST_LISTEN_ACTIVE)) then
                (let s1 = nci_adapter_set_internal_state NCI_ADAPTER_REACTIVATING_TARGET self;
                     s2 = s1\<lparr>presence_check_timer := None\<rparr>
                 in (True, adapter_call (NCI_SET_STATE NCI_RFST_DISCOVERY) s2))
              else (False, self))
         | None \<Rightarrow> (False, self))
      else (False, self))"

definition nci_adapter_set_allowed_techs ::
    "NciDefs \<Rightarrow> NFC_TECHNOLOGY set \<Rightarrow> NciAdapter \<Rightarrow> NciAdapter" where
  "nci_adapter_set_allowed_techs K techs self =
     (let affected_techs = NCI_TECH_A K OR NCI_TECH_B K OR NCI_TECH_F K;
          s1 = self\<lparr>active_techs := supported_techs self AND NOT affected_techs\<rparr>;
          s2 = (if NFC_TECHNOLOGY_A \<in> techs
                then s1\<lparr>active_techs := active_techs s1 OR (supported_techs s1 AND NCI_TECH_A K)\<rparr>
                else s1);
          s3 = (if NFC_TECHNOLOGY_B \<in> techs
                then s2\<lparr>active_techs := active_techs s2 OR (supported_techs s2 AND NCI_TECH_B K)\<rparr>
                else s2);
          s4 = (if NFC_TECHNOLOGY_F \<in> techs
                then s3\<lparr>active_techs := active_techs s3 OR (supported_techs s3 AND NCI_TECH_F K)\<rparr>
                else s3)
      in adapter_call (NCI_SET_TECH (active_techs s4 AND active_tech_mask s4)) s4)"

text \<open>
  \<^verbatim>\<open>nci_adapter_init\<close> followed by \<^verbatim>\<open>nci_adapter_init_base\<close>: the private data
  is zero-filled, \<open>techs\<close> is what \<^verbatim>\<open>nci_core_get_tech\<close> returns, \<open>core\<close> the
  states of the new NCI core and \<open>par\<close> the flags of the parent object.
\<close>

definition nci_adapter_init :: "NciDefs \<Rightarrow> NCI_TECH \<Rightarrow> NciCore \<Rightarrow> NfcAdapter \<Rightarrow> NciAdapter" where
  "nci_adapter_init K techs core par =
     \<lparr> parent = par,
       target = None,
       nci = Some core,
       presence_check_id = 0,
       presence_check_timer = None,
       active_intf = None,
       initiator = None,
       internal_state = NCI_ADAPTER_IDLE,
       ce_reactivation_timer = None,
       supported_techs = techs,
       active_techs = techs,
       active_tech_mask = NCI_TECH_ALL K,
       tag = None,
       host = None,
       peer = None,
       out = [] \<rparr>"

subsection \<open>Reachable adapter states\<close>

text \<open>
  Everything that runs adapter code or changes what the adapter reads, one entry
  per return to the main loop: the callbacks of the NCI core (the core first
  stores its new state, then calls the handler), the two timers (each fires only
  while armed), the completion of a presence check, the requests of the upper
  layer, a framework object that is destroyed (its weak pointer clears itself),
  and a change of the parent flags. Mode requests and the parameter functions
  write none of the fields of \<open>NciAdapter\<close> and are not listed.
\<close>

datatype weak_ref = WEAK_TAG | WEAK_HOST | WEAK_PEER

datatype adapter_op =
    A_INTF_ACTIVATED Framework NciIntfActivationNtf
  | A_NEXT_STATE NCI_STATE
  | A_CURRENT_STATE NCI_STATE
  | A_CE_REACTIVATION_TIMEOUT
  | A_PRESENCE_CHECK_TIMER bool guint
  | A_PRESENCE_CHECK_DONE "ptr option" bool
  | A_REACTIVATE "ptr option"
  | A_DEACTIVATE_TARGET "ptr option"
  | A_DEACTIVATE_INITIATOR "ptr option"
  | A_SET_ALLOWED_TECHS "NFC_TECHNOLOGY set"
  | A_OBJECT_DESTROYED weak_ref
  | A_PARENT_FLAGS NfcAdapter

fun adapter_step :: "NciDefs \<Rightarrow> adapter_op \<Rightarrow> NciAdapter \<Rightarrow> NciAdapter option" where
  "adapter_step K (A_INTF_ACTIVATED fw ntf) self = Some (nci_adapter_activation K fw ntf self)"
| "adapter_step K (A_NEXT_STATE st) self =
     (case nci self of
        None \<Rightarrow> None
      | Some n \<Rightarrow> nci_adapter_next_state_changed K (self\<lparr>nci := Some (n\<lparr>next_state := st\<rparr>)\<rparr>))"
| "adapter_step K (A_CURRENT_STATE st) self =
     (case nci self of
        None \<Rightarrow> None
      | Some n \<Rightarrow>
          Some (nci_adapter_current_state_changed (self\<lparr>nci := Some (n\<lparr>current_state := st\<rparr>)\<rparr>)))"
| "adapter_step K A_CE_REACTIVATION_TIMEOUT self =
     (if ce_reactivation_timer self \<noteq> None
      then Some (nci_adapter_ce_reactivation_timeout K self) else None)"
| "adapter_step K (A_PRESENCE_CHECK_TIMER do_check check_id) self =
     (if presence_check_timer self \<noteq> None
      then nci_adapter_presence_check_timer do_check check_id self else None)"
| "adapter_step K (A_PRESENCE_CHECK_DONE tgt ok) self =
     Some (nci_adapter_presence_check_done tgt ok self)"
| "adapter_step K (A_REACTIVATE tgt) self = Some (snd (nci_adapter_reactivate tgt self))"
| "adapter_step K (A_DEACTIVATE_TARGET tgt) self = Some (nci_adapter_deactivate_target tgt self)"
| "adapter_step K (A_DEACTIVATE_INITIATOR ini) self =
     Some (nci_adapter_deactivate_initiator K ini self)"
| "adapter_step K (A_SET_ALLOWED_TECHS techs) self =
     Some (nci_adapter_set_allowed_techs K techs self)"
| "adapter_step K (A_OBJECT_DESTROYED WEAK_TAG) self = Some (self\<lparr>tag := None\<rparr>)"
| "adapter_step K (A_OBJECT_DESTROYED WEAK_HOST) self = Some (self\<lparr>host := None\<rparr>)"
| "adapter_step K (A_OBJECT_DESTROYED WEAK_PEER) self = Some (self\<lparr>peer := None\<rparr>)"
| "adapter_step K (A_PARENT_FLAGS par) self = Some (self\<lparr>parent := par\<rparr>)"

inductive adapter_reachable :: "NciDefs \<Rightarrow> NciAdapter \<Rightarrow> bool" for K :: NciDefs where
  adapter_init: "adapter_reachable K (nci_adapter_init K techs core par)"
| adapter_next: "adapter_reachable K self \<Longrightarrow> adapter_step K op self = Some self' \<Longrightarrow>
     adapter_reachable K self'"

section \<open>Invariants and runs\<close>

text \<open>
  What holds of a target between two operations: a buffered reply is only there
  while the send it overtook is still outstanding and the transmit is in flight.
\<close>

definition target_inv :: "NciTarget \<Rightarrow> bool" where
  "target_inv t \<longleftrightarrow>
     (pending_reply t \<noteq> None \<longrightarrow> send_in_progress t \<noteq> 0 \<and> transmit_in_progress t)"

text \<open>
  What holds of the adapter between two operations: a target excludes an
  initiator and goes with the two target states, an initiator goes with the three
  initiator states, the stored interface belongs to a target or an initiator, the
  presence-check timer runs only where \<^verbatim>\<open>nci_adapter_need_presence_checks\<close>
  holds, and a host is only watched while the initiator is held.
\<close>

definition adapter_inv :: "NciAdapter \<Rightarrow> bool" where
  "adapter_inv s \<longleftrightarrow>
     (target s \<noteq> None \<longrightarrow> initiator s = None \<and>
        (internal_state s = NCI_ADAPTER_HAVE_TARGET \<or>
         internal_state s = NCI_ADAPTER_REACTIVATING_TARGET)) \<and>
     (initiator s \<noteq> None \<longrightarrow>
        (internal_state s = NCI_ADAPTER_HAVE_INITIATOR \<or>
         internal_state s = NCI_ADAPTER_REACTIVATING_CE \<or>
         internal_state s = NCI_ADAPTER_REACTIVATED_CE)) \<and>
     (active_intf s \<noteq> None \<longrightarrow> target s \<noteq> None \<or> initiator s \<noteq> None) \<and>
     (presence_check_timer s \<noteq> None \<longrightarrow> nci_adapter_need_presence_checks s) \<and>
     (host s \<noteq> None \<longrightarrow> initiator s \<noteq> None)"

text \<open>A run applies the operations in order and stops at one that cannot happen.\<close>

fun adapter_exec :: "NciDefs \<Rightarrow> adapter_op list \<Rightarrow> NciAdapter \<Rightarrow> NciAdapter" where
  "adapter_exec K [] self = self"
| "adapter_exec K (op # ops) self =
     (case adapter_step K op self of None \<Rightarrow> self | Some self' \<Rightarrow> adapter_exec K ops self')"

fun target_exec :: "NciDefs \<Rightarrow> target_op list \<Rightarrow> NciTarget \<Rightarrow> NciTarget" where
  "target_exec K [] self = self"
| "target_exec K (op # ops) self =
     (case target_step K op self of None \<Rightarrow> self | Some self' \<Rightarrow> target_exec K ops self')"

section \<open>Concrete inputs\<close>

text \<open>
  One assignment of the header constants: connection id 0 and status 0x02 as in
  the NCI specification, and a group of bits per technology.
\<close>

definition example_defs :: NciDefs where
  "example_defs =
     \<lparr> NCI_STATIC_RF_CONN_ID = 0x00,
       NCI_STATUS_RF_FRAME_CORRUPTED = 0x02,
       NCI_TECH_NONE = 0x0000,
       NCI_TECH_A = 0x000f,
       NCI_TECH_B = 0x0030,
       NCI_TECH_F = 0x03c0,
       NCI_TECH_A_LISTEN = 0x000c,
       NCI_TECH_B_LISTEN = 0x0020,
       NCI_TECH_ALL = 0x0fff \<rparr>"

text \<open>The member of the union that a mode does not use is zero-filled.\<close>

definition zero_poll_a :: NciModeParamPollA where
  "zero_poll_a =
     \<lparr> sens_res = [0x00, 0x00],
       nfcid1_len = 0,
       nfcid1 = [0x00, 0x00, 0x00, 0x00, 0x00, 0x00, 0x00, 0x00, 0x00, 0x00],
       sel_res_len = 0,
       sel_res = 0x00 \<rparr>"

definition zero_poll_b :: NciModeParamPollB where
  "zero_poll_b =
     \<lparr> nfcid0 = [0x00, 0x00, 0x00, 0x00],
       fsc = 0,
       app_data = [0x00, 0x00, 0x00, 0x00],
       prot_info = [] \<rparr>"

text \<open>A Type 2 tag with a seven-byte NFCID1 on the Frame interface.\<close>

definition example_ntf_t2 :: NciIntfActivationNtf where
  "example_ntf_t2 =
     \<lparr> ntf_rf_intf = NCI_RF_INTERFACE_FRAME,
       ntf_protocol = NCI_PROTOCOL_T2T,
       ntf_mode = NCI_MODE_PASSIVE_POLL_A,
       mode_param_bytes =
         [0x44, 0x00, 0x07, 0x04, 0x11, 0x22, 0x33, 0x44, 0x55, 0x66, 0x01, 0x00],
       ntf_mode_param = Some
         \<lparr> poll_a =
             \<lparr> sens_res = [0x44, 0x00],
               nfcid1_len = 7,
               nfcid1 = [0x04, 0x11, 0x22, 0x33, 0x44, 0x55, 0x66, 0x00, 0x00, 0x00],
               sel_res_len = 1,
               sel_res = 0x00 \<rparr>,
           poll_b = zero_poll_b \<rparr>,
       activation_param_bytes = [] \<rparr>"

text \<open>
  A Type 4A card with a random four-byte NFCID1, seen twice: the bytes after the
  leading 0x08 differ between the two activations.
\<close>

definition example_mode_param_t4a :: "byte list \<Rightarrow> NciModeParam" where
  "example_mode_param_t4a uid =
     \<lparr> poll_a =
         \<lparr> sens_res = [0x04, 0x00],
           nfcid1_len = 4,
           nfcid1 = [0x08] @ uid @ [0x00, 0x00, 0x00, 0x00, 0x00, 0x00],
           sel_res_len = 1,
           sel_res = 0x20 \<rparr>,
       poll_b = zero_poll_b \<rparr>"

definition example_ntf_t4a :: "byte list \<Rightarrow> NciIntfActivationNtf" where
  "example_ntf_t4a uid =
     \<lparr> ntf_rf_intf = NCI_RF_INTERFACE_ISO_DEP,
       ntf_protocol = NCI_PROTOCOL_ISO_DEP,
       ntf_mode = NCI_MODE_PASSIVE_POLL_A,
       mode_param_bytes = [0x04, 0x00, 0x04, 0x08] @ uid @ [0x01, 0x20],
       ntf_mode_param = Some (example_mode_param_t4a uid),
       activation_param_bytes = [0x05, 0x78, 0x80, 0x70, 0x02] \<rparr>"

definition example_uid_first :: "byte list" where
  "example_uid_first = [0x11, 0x22, 0x33]"

definition example_uid_again :: "byte list" where
  "example_uid_again = [0xaa, 0xbb, 0xcc]"

text \<open>A Type 4B card, seen twice with a different NFCID0.\<close>

definition example_mode_param_t4b :: "byte list \<Rightarrow> NciModeParam" where
  "example_mode_param_t4b uid =
     \<lparr> poll_a = zero_poll_a,
       poll_b =
         \<lparr> nfcid0 = uid,
           fsc = 256,
           app_data = [0x00, 0x00, 0x00, 0x00],
           prot_info = [0x80, 0x81, 0x71] \<rparr> \<rparr>"

definition example_ntf_t4b :: "byte list \<Rightarrow> NciIntfActivationNtf" where
  "example_ntf_t4b uid =
     \<lparr> ntf_rf_intf = NCI_RF_INTERFACE_ISO_DEP,
       ntf_protocol = NCI_PROTOCOL_ISO_DEP,
       ntf_mode = NCI_MODE_PASSIVE_POLL_B,
       mode_param_bytes = [0x0b] @ uid @ [0x00, 0x00, 0x00, 0x00, 0x80, 0x81, 0x71],
       ntf_mode_param = Some (example_mode_param_t4b uid),
       activation_param_bytes = [0x01, 0x00] \<rparr>"

definition example_nfcid0_first :: "byte list" where
  "example_nfcid0_first = [0x01, 0x02, 0x03, 0x04]"

definition example_nfcid0_again :: "byte list" where
  "example_nfcid0_again = [0x09, 0x08, 0x07, 0x06]"

text \<open>A peer on the NFC-DEP interface, and a reader that selects the emulated card.\<close>

definition example_ntf_p2p :: NciIntfActivationNtf where
  "example_ntf_p2p =
     \<lparr> ntf_rf_intf = NCI_RF_INTERFACE_NFC_DEP,
       ntf_protocol = NCI_PROTOCOL_NFC_DEP,
       ntf_mode = NCI_MODE_PASSIVE_POLL_A,
       mode_param_bytes = [0x44, 0x00, 0x04, 0x08, 0x01, 0x02, 0x03, 0x01, 0x40],
       ntf_mode_param = Some
         \<lparr> poll_a =
             \<lparr> sens_res = [0x44, 0x00],
               nfcid1_len = 4,
               nfcid1 = [0x08, 0x01, 0x02, 0x03, 0x00, 0x00, 0x00, 0x00, 0x00, 0x00],
               sel_res_len = 1,
               sel_res = 0x40 \<rparr>,
           poll_b = zero_poll_b \<rparr>,
       activation_param_bytes = [] \<rparr>"

definition example_ntf_ce :: NciIntfActivationNtf where
  "example_ntf_ce =
     \<lparr> ntf_rf_intf = NCI_RF_INTERFACE_ISO_DEP,
       ntf_protocol = NCI_PROTOCOL_ISO_DEP,
       ntf_mode = NCI_MODE_PASSIVE_LISTEN_A,
       mode_param_bytes = [],
       ntf_mode_param = None,
       activation_param_bytes = [0x08] \<rparr>"

text \<open>
  A framework that accepts a Type 2 tag, a Poll-A peer and a host, and an
  initiator of technology A.
\<close>

definition example_framework :: Framework where
  "example_framework =
     \<lparr> new_target = 1,
       add_peer_initiator_a = Some 2,
       add_peer_initiator_f = None,
       add_tag_t2 = Some 3,
       add_tag_t4a = None,
       add_tag_t4b = None,
       add_other_tag2 = None,
       nci_initiator_new = Some \<lparr> initiator_ptr = 4, technology = NFC_TECHNOLOGY_A \<rparr>,
       add_peer_target_a = None,
       add_peer_target_f = None,
       add_host = Some 5 \<rparr>"

definition example_initiator :: NfcInitiator where
  "example_initiator = \<lparr> initiator_ptr = 4, technology = NFC_TECHNOLOGY_A \<rparr>"

definition example_adapter :: NciAdapter where
  "example_adapter =
     nci_adapter_init example_defs 0x003f
       \<lparr> current_state = NCI_RFST_IDLE, next_state = NCI_RFST_IDLE \<rparr>
       \<lparr> enabled = True, powered = True, power_requested = True \<rparr>"

text \<open>Discovery, then the activation of a remote endpoint in poll mode.\<close>

definition example_poll_trace :: "NciIntfActivationNtf \<Rightarrow> adapter_op list" where
  "example_poll_trace ntf =
     [A_NEXT_STATE NCI_RFST_DISCOVERY,
      A_CURRENT_STATE NCI_RFST_DISCOVERY,
      A_NEXT_STATE NCI_RFST_POLL_ACTIVE,
      A_INTF_ACTIVATED example_framework ntf,
      A_CURRENT_STATE NCI_RFST_POLL_ACTIVE]"

text \<open>Discovery, then the activation of the emulated card by a reader.\<close>

definition example_listen_trace :: "adapter_op list" where
  "example_listen_trace =
     [A_NEXT_STATE NCI_RFST_DISCOVERY,
      A_CURRENT_STATE NCI_RFST_DISCOVERY,
      A_NEXT_STATE NCI_RFST_LISTEN_ACTIVE,
      A_INTF_ACTIVATED example_framework example_ntf_ce,
      A_CURRENT_STATE NCI_RFST_LISTEN_ACTIVE]"

text \<open>The adapter with the Type 2 tag, with the peer, and with the host.\<close>

definition example_adapter_tag :: NciAdapter where
  "example_adapter_tag =
     adapter_exec example_defs (example_poll_trace example_ntf_t2) example_adapter"

definition example_adapter_p2p :: NciAdapter where
  "example_adapter_p2p =
     adapter_exec example_defs (example_poll_trace example_ntf_p2p) example_adapter"

definition example_adapter_host :: NciAdapter where
  "example_adapter_host = adapter_exec example_defs example_listen_trace example_adapter"

text \<open>The host after the reader has dropped the field: waiting for reactivation.\<close>

definition example_adapter_reactivating_ce :: NciAdapter where
  "example_adapter_reactivating_ce =
     adapter_exec example_defs [A_NEXT_STATE NCI_RFST_DISCOVERY] example_adapter_host"

text \<open>
  The host is activated once more by the same reader, the upper layer then
  deactivates the initiator, and the NCI core leaves LISTEN_ACTIVE for DISCOVERY.
\<close>

definition example_adapter_abandoned :: NciAdapter where
  "example_adapter_abandoned =
     adapter_exec example_defs
       [A_INTF_ACTIVATED example_framework example_ntf_ce,
        A_DEACTIVATE_INITIATOR (Some 4),
        A_NEXT_STATE NCI_RFST_DISCOVERY]
       example_adapter_host"

text \<open>The targets that \<^verbatim>\<open>nci_target_new\<close> makes for the Type 2 and Type 4A tags.\<close>

definition example_target_t2 :: NciTarget where
  "example_target_t2 =
     \<lparr> target_technology = NFC_TECHNOLOGY_A,
       target_protocol = NFC_PROTOCOL_T2_TAG,
       tx_timeout = -1,
       adapter = True,
       send_in_progress = 0,
       transmit_in_progress = False,
       pending_reply = None,
       presence_check_fn = Some PRESENCE_CHECK_T2,
       transmit_finish_fn = Some TRANSMIT_FINISH_FRAME,
       calls = [] \<rparr>"

definition example_target_t4a :: NciTarget where
  "example_target_t4a =
     \<lparr> target_technology = NFC_TECHNOLOGY_A,
       target_protocol = NFC_PROTOCOL_T4A_TAG,
       tx_timeout = 2500,
       adapter = True,
       send_in_progress = 0,
       transmit_in_progress = False,
       pending_reply = None,
       presence_check_fn = Some PRESENCE_CHECK_T4,
       transmit_finish_fn = Some TRANSMIT_FINISH_ISO_DEP,
       calls = [] \<rparr>"

text \<open>
  The Type 4A target after a transmit whose send has not completed yet, and after
  the reply has arrived before that completion.
\<close>

definition example_target_sending :: NciTarget where
  "example_target_sending =
     target_exec example_defs [T_TRANSMIT [0x00, 0xa4] 7] example_target_t4a"

definition example_target_waiting :: NciTarget where
  "example_target_waiting =
     target_exec example_defs [T_TRANSMIT [0x00, 0xa4] 7, T_DATA_PACKET 0x00 [0x90, 0x00]]
       example_target_t4a"

section \<open>The match predicate\<close>

lemma memcmp_eq_full: "length a = n \<Longrightarrow> length b = n \<Longrightarrow> memcmp_eq a b n \<longleftrightarrow> a = b"
  by (simp add: memcmp_eq_def)

lemma mode_param_match_poll_a_iff:
  assumes "wf_poll_a pa1" "wf_poll_a pa2"
  shows "mode_param_match_poll_a pa1 pa2 \<longleftrightarrow>
     sel_res pa1 = sel_res pa2 \<and> sel_res_len pa1 = sel_res_len pa2 \<and>
     nfcid1_len pa1 = nfcid1_len pa2 \<and> sens_res pa1 = sens_res pa2 \<and>
     ((nfcid1_len pa1 = 4 \<and> nfcid1 pa1 ! 0 = 0x08 \<and> nfcid1 pa2 ! 0 = 0x08) \<or>
      take (unat (nfcid1_len pa1)) (nfcid1 pa1) = take (unat (nfcid1_len pa2)) (nfcid1 pa2))"
  using assms
  by (auto simp: mode_param_match_poll_a_def wf_poll_a_def memcmp_eq_full
        RANDOM_UID_SIZE_def RANDOM_UID_START_BYTE_def memcmp_eq_def)

lemma poll_a_case_matches:
  assumes "rf_intf info = ntf_rf_intf ntf" and "protocol info = ntf_protocol ntf"
      and "mode info = ntf_mode ntf"
      and "ntf_mode ntf = NCI_MODE_PASSIVE_POLL_A"
      and "ntf_rf_intf ntf \<in> {NCI_RF_INTERFACE_FRAME, NCI_RF_INTERFACE_ISO_DEP}"
      and "activation_param info = activation_param_bytes ntf"
      and "mode_param_parsed info = Some mp1" and "ntf_mode_param ntf = Some mp2"
  shows "nci_adapter_intf_info_matches (Some info) ntf \<longleftrightarrow>
        mode_param_match_poll_a (poll_a mp1) (poll_a mp2)"
  using assms
  by (auto simp: nci_adapter_intf_info_matches_def nci_adapter_info_mode_params_matches_def
        memcmp_eq_def)

lemmas example_ntf_simps = example_ntf_t2_def example_ntf_t4a_def example_ntf_t4b_def
  example_ntf_p2p_def example_ntf_ce_def example_mode_param_t4a_def example_mode_param_t4b_def
  example_uid_first_def example_uid_again_def example_nfcid0_first_def example_nfcid0_again_def
  zero_poll_a_def zero_poll_b_def nci_adapter_intf_info_new_def nci_util_copy_mode_param_def

text \<open>
  C1. A stored IntfInfo and a notification agree on \<open>rf_intf\<close>, \<open>protocol\<close> and
  \<open>mode\<close>, the mode is \<open>PASSIVE_POLL_A\<close>, the interface is \<open>FRAME\<close> or
  \<open>ISO_DEP\<close>, and the raw activation parameters are equal. Both carry parsed
  Poll-A parameters, the ones whose fields are compared. Then the match predicate
  holds if and only if \<open>sel_res\<close>, \<open>sel_res_len\<close>, \<open>nfcid1_len\<close> and \<open>sens_res\<close>
  are equal and either \<open>nfcid1_len\<close> is 4 and the first NFCID1 byte of both sides
  is 0x08, whatever the other bytes are, or the NFCID1 (the \<open>nfcid1_len\<close> bytes of
  the array that hold it) is the same byte for byte.
\<close>

theorem poll_a_match_criterion:
  assumes "rf_intf info = ntf_rf_intf ntf" and "protocol info = ntf_protocol ntf"
      and "mode info = ntf_mode ntf"
      and "ntf_mode ntf = NCI_MODE_PASSIVE_POLL_A"
      and "ntf_rf_intf ntf \<in> {NCI_RF_INTERFACE_FRAME, NCI_RF_INTERFACE_ISO_DEP}"
      and "activation_param info = activation_param_bytes ntf"
      and "mode_param_parsed info = Some mp1" and "ntf_mode_param ntf = Some mp2"
      and "wf_poll_a (poll_a mp1)" and "wf_poll_a (poll_a mp2)"
  shows "nci_adapter_intf_info_matches (Some info) ntf \<longleftrightarrow>
     sel_res (poll_a mp1) = sel_res (poll_a mp2) \<and>
     sel_res_len (poll_a mp1) = sel_res_len (poll_a mp2) \<and>
     nfcid1_len (poll_a mp1) = nfcid1_len (poll_a mp2) \<and>
     sens_res (poll_a mp1) = sens_res (poll_a mp2) \<and>
     ((nfcid1_len (poll_a mp1) = 4 \<and> nfcid1 (poll_a mp1) ! 0 = 0x08 \<and>
       nfcid1 (poll_a mp2) ! 0 = 0x08) \<or>
      take (unat (nfcid1_len (poll_a mp1))) (nfcid1 (poll_a mp1)) =
      take (unat (nfcid1_len (poll_a mp2))) (nfcid1 (poll_a mp2)))"
proof -
  have "nci_adapter_intf_info_matches (Some info) ntf \<longleftrightarrow>
        mode_param_match_poll_a (poll_a mp1) (poll_a mp2)"
    by (rule poll_a_case_matches [OF assms(1-8)])
  then show ?thesis
    using mode_param_match_poll_a_iff [OF assms(9,10)] by simp
qed

text \<open>
  The Type 4A card with a random NFCID1 matches itself although the three
  generated bytes have changed.
\<close>

theorem poll_a_match_criterion_witness:
  "nfcid1 (poll_a (example_mode_param_t4a example_uid_first)) \<noteq>
     nfcid1 (poll_a (example_mode_param_t4a example_uid_again)) \<and>
   nci_adapter_intf_info_matches
     (Some (nci_adapter_intf_info_new (example_ntf_t4a example_uid_first)))
     (example_ntf_t4a example_uid_again)"
  using poll_a_match_criterion
    [of "nci_adapter_intf_info_new (example_ntf_t4a example_uid_first)"
        "example_ntf_t4a example_uid_again"
        "example_mode_param_t4a example_uid_first"
        "example_mode_param_t4a example_uid_again"]
  by (simp add: example_ntf_simps wf_poll_a_def)

lemma mode_param_match_poll_b_iff:
  assumes "wf_poll_b pb1" "wf_poll_b pb2"
  shows "mode_param_match_poll_b pb1 pb2 \<longleftrightarrow>
     fsc pb1 = fsc pb2 \<and> app_data pb1 = app_data pb2 \<and> prot_info pb1 = prot_info pb2"
  using assms
  by (auto simp: mode_param_match_poll_b_def wf_poll_b_def memcmp_eq_full gutil_data_equal_def)

lemma poll_b_case_matches:
  assumes "rf_intf info = ntf_rf_intf ntf" and "protocol info = ntf_protocol ntf"
      and "mode info = ntf_mode ntf"
      and "ntf_mode ntf = NCI_MODE_PASSIVE_POLL_B"
      and "ntf_rf_intf ntf = NCI_RF_INTERFACE_ISO_DEP"
      and "activation_param info = activation_param_bytes ntf"
      and "mode_param_parsed info = Some mp1" and "ntf_mode_param ntf = Some mp2"
  shows "nci_adapter_intf_info_matches (Some info) ntf \<longleftrightarrow>
        mode_param_match_poll_b (poll_b mp1) (poll_b mp2)"
  using assms
  by (auto simp: nci_adapter_intf_info_matches_def nci_adapter_info_mode_params_matches_def
          memcmp_eq_def)

text \<open>
  C2. A stored IntfInfo and a notification agree on \<open>rf_intf\<close>, \<open>protocol\<close> and
  \<open>mode\<close>, the mode is \<open>PASSIVE_POLL_B\<close>, the interface is \<open>ISO_DEP\<close>, and the
  raw activation parameters are equal. Both carry parsed Poll-B parameters. Then
  the match predicate holds if and only if \<open>fsc\<close>, \<open>app_data\<close> and \<open>prot_info\<close>
  (with its length) are equal; \<open>nfcid0\<close> is not looked at, so a notification that
  differs in \<open>nfcid0\<close> alone (and so in its raw mode-parameter bytes) matches just
  the same.
\<close>

theorem poll_b_match_criterion:
  assumes "rf_intf info = ntf_rf_intf ntf" and "protocol info = ntf_protocol ntf"
      and "mode info = ntf_mode ntf"
      and "ntf_mode ntf = NCI_MODE_PASSIVE_POLL_B"
      and "ntf_rf_intf ntf = NCI_RF_INTERFACE_ISO_DEP"
      and "activation_param info = activation_param_bytes ntf"
      and "mode_param_parsed info = Some mp1" and "ntf_mode_param ntf = Some mp2"
      and "wf_poll_b (poll_b mp1)" and "wf_poll_b (poll_b mp2)"
  shows "(nci_adapter_intf_info_matches (Some info) ntf \<longleftrightarrow>
            fsc (poll_b mp1) = fsc (poll_b mp2) \<and>
            app_data (poll_b mp1) = app_data (poll_b mp2) \<and>
            prot_info (poll_b mp1) = prot_info (poll_b mp2)) \<and>
         nci_adapter_intf_info_matches (Some info)
           (ntf\<lparr>mode_param_bytes := raw,
                ntf_mode_param := Some (mp2\<lparr>poll_b := (poll_b mp2)\<lparr>nfcid0 := uid\<rparr>\<rparr>)\<rparr>) =
         nci_adapter_intf_info_matches (Some info) ntf"
proof -
  let ?ntf' = "ntf\<lparr>mode_param_bytes := raw,
                   ntf_mode_param := Some (mp2\<lparr>poll_b := (poll_b mp2)\<lparr>nfcid0 := uid\<rparr>\<rparr>)\<rparr>"
  have a: "nci_adapter_intf_info_matches (Some info) ntf \<longleftrightarrow>
        mode_param_match_poll_b (poll_b mp1) (poll_b mp2)"
    by (rule poll_b_case_matches [OF assms(1-8)])
  have b: "nci_adapter_intf_info_matches (Some info) ?ntf' \<longleftrightarrow>
        mode_param_match_poll_b (poll_b mp1) ((poll_b mp2)\<lparr>nfcid0 := uid\<rparr>)"
    using assms(1-7)
    by (simp add: poll_b_case_matches [of info ?ntf' mp1 "mp2\<lparr>poll_b := (poll_b mp2)\<lparr>nfcid0 := uid\<rparr>\<rparr>"])
  have c: "mode_param_match_poll_b (poll_b mp1) ((poll_b mp2)\<lparr>nfcid0 := uid\<rparr>) =
        mode_param_match_poll_b (poll_b mp1) (poll_b mp2)"
    by (simp add: mode_param_match_poll_b_def)
  show ?thesis
    using a b c mode_param_match_poll_b_iff [OF assms(9,10)] by simp
qed

text \<open>The Type 4B card matches itself although its NFCID0 has changed.\<close>

theorem poll_b_match_criterion_witness:
  "nfcid0 (poll_b (example_mode_param_t4b example_nfcid0_first)) \<noteq>
     nfcid0 (poll_b (example_mode_param_t4b example_nfcid0_again)) \<and>
   nci_adapter_intf_info_matches
     (Some (nci_adapter_intf_info_new (example_ntf_t4b example_nfcid0_first)))
     (example_ntf_t4b example_nfcid0_again)"
  using poll_b_match_criterion
    [of "nci_adapter_intf_info_new (example_ntf_t4b example_nfcid0_first)"
        "example_ntf_t4b example_nfcid0_again"
        "example_mode_param_t4b example_nfcid0_first"
        "example_mode_param_t4b example_nfcid0_again"]
  by (simp add: example_ntf_simps wf_poll_b_def)

section \<open>The target data path\<close>

lemmas example_target_simps = example_defs_def example_target_t2_def example_target_t4a_def
  example_target_sending_def example_target_waiting_def

lemma last_conv: "payload \<noteq> [] \<Longrightarrow> payload ! (length payload - Suc 0) = last payload"
  by (simp add: last_conv_nth)

lemma butlast_conv: "take (length payload - Suc 0) payload = butlast payload"
  by (simp add: butlast_conv_take)

text \<open>
  C3. A non-empty payload is finalized on a target of the Frame RF interface.
  If its last byte is \<open>STATUS_RF_FRAME_CORRUPTED\<close>, \<open>transmit_done\<close> is delivered
  with status ERROR and no payload. With any other last byte (\<open>STATUS_OK\<close>,
  \<open>STATUS_OK_n_BIT\<close> or a status the code does not know), \<open>transmit_done\<close> is
  delivered with status OK and the payload without its last byte. Either way the
  transmit is no longer in progress.
\<close>

theorem frame_finish_by_status:
  assumes "payload \<noteq> []" and "transmit_finish_fn self = Some TRANSMIT_FINISH_FRAME"
  shows "nci_target_finish_transmit K payload self =
     (if last payload = NCI_STATUS_RF_FRAME_CORRUPTED K
      then target_call (TRANSMIT_DONE NFC_TRANSMIT_STATUS_ERROR [])
             (self\<lparr>transmit_in_progress := False\<rparr>)
      else target_call (TRANSMIT_DONE NFC_TRANSMIT_STATUS_OK (butlast payload))
             (self\<lparr>transmit_in_progress := False\<rparr>))"
  using assms
  by (simp add: nci_target_finish_transmit_def nci_target_transmit_finish_frame_def
        last_conv butlast_conv Let_def)

text \<open>
  A frame that ends in the corrupted status 0x02 fails; the same frame ending in
  0x13 is delivered without that byte.
\<close>

theorem frame_finish_by_status_witness:
  "calls (nci_target_finish_transmit example_defs [0xd0, 0xd1, 0x02] example_target_t2) =
     [TRANSMIT_DONE NFC_TRANSMIT_STATUS_ERROR []] \<and>
   calls (nci_target_finish_transmit example_defs [0xd0, 0xd1, 0x13] example_target_t2) =
     [TRANSMIT_DONE NFC_TRANSMIT_STATUS_OK [0xd0, 0xd1]]"
  using frame_finish_by_status [of "[0xd0, 0xd1, 0x02]" example_target_t2 example_defs]
        frame_finish_by_status [of "[0xd0, 0xd1, 0x13]" example_target_t2 example_defs]
  by (simp add: example_target_simps target_call_def)

lemma call_finish_fields:
  "call_transmit_finish_fn K fn p t = (ok, t') \<Longrightarrow>
     pending_reply t' = pending_reply t \<and> send_in_progress t' = send_in_progress t"
  by (cases fn)
     (auto simp: nci_target_transmit_finish_frame_def nci_target_transmit_finish_iso_dep_def
        nci_target_transmit_finish_nfc_dep_def target_call_def Let_def split: if_splits)

lemma finish_transmit_fields:
  "pending_reply (nci_target_finish_transmit K p t) = pending_reply t \<and>
   send_in_progress (nci_target_finish_transmit K p t) = send_in_progress t"
proof (cases "transmit_finish_fn t")
  case None
  then show ?thesis by (simp add: nci_target_finish_transmit_def target_call_def)
next
  case (Some fn)
  obtain ok t' where r: "call_transmit_finish_fn K fn p (t\<lparr>transmit_in_progress := False\<rparr>) = (ok, t')"
    by (cases "call_transmit_finish_fn K fn p (t\<lparr>transmit_in_progress := False\<rparr>)")
  from call_finish_fields [OF r] Some r show ?thesis
    by (cases ok) (simp_all add: nci_target_finish_transmit_def target_call_def)
qed

text \<open>
  C4. A data packet arrives. On the static RF connection, with a transmit in
  flight and no reply buffered: while the send is still outstanding the payload
  becomes \<open>pending_reply\<close> and nothing is delivered, and the send completion
  that follows finalizes the transmit with exactly these bytes; once the send
  has completed the transmit is finalized at once. A packet on another
  connection, or with no transmit in flight, or with a reply already buffered,
  changes nothing. The send completion always leaves \<open>send_in_progress\<close> at
  zero; with no reply buffered that is all it does, so a packet that arrives
  after it is finalized at once.
\<close>

theorem reply_and_send_completion:
  "(cid = NCI_STATIC_RF_CONN_ID K \<and> transmit_in_progress self \<and> pending_reply self = None \<and>
      send_in_progress self \<noteq> 0 \<longrightarrow>
      nci_target_data_packet_handler K cid data self = self\<lparr>pending_reply := Some data\<rparr> \<and>
      calls (nci_target_data_packet_handler K cid data self) = calls self \<and>
      nci_target_data_sent K success (nci_target_data_packet_handler K cid data self) =
        nci_target_finish_transmit K data (self\<lparr>send_in_progress := 0\<rparr>)) \<and>
   (cid = NCI_STATIC_RF_CONN_ID K \<and> transmit_in_progress self \<and> pending_reply self = None \<and>
      send_in_progress self = 0 \<longrightarrow>
      nci_target_data_packet_handler K cid data self = nci_target_finish_transmit K data self) \<and>
   (cid \<noteq> NCI_STATIC_RF_CONN_ID K \<or> \<not> transmit_in_progress self \<or> pending_reply self \<noteq> None \<longrightarrow>
      nci_target_data_packet_handler K cid data self = self) \<and>
   send_in_progress (nci_target_data_sent K success self) = 0 \<and>
   (pending_reply self = None \<longrightarrow>
      nci_target_data_sent K success self = self\<lparr>send_in_progress := 0\<rparr>) \<and>
   (cid = NCI_STATIC_RF_CONN_ID K \<and> transmit_in_progress self \<and> pending_reply self = None \<longrightarrow>
      nci_target_data_packet_handler K cid data (nci_target_data_sent K success self) =
        nci_target_finish_transmit K data (self\<lparr>send_in_progress := 0\<rparr>))"
proof (intro conjI impI)
  assume h: "cid = NCI_STATIC_RF_CONN_ID K \<and> transmit_in_progress self \<and>
             pending_reply self = None \<and> send_in_progress self \<noteq> 0"
  then have e: "self\<lparr>send_in_progress := 0, pending_reply := None\<rparr> = self\<lparr>send_in_progress := 0\<rparr>"
    by simp
  show "nci_target_data_packet_handler K cid data self = self\<lparr>pending_reply := Some data\<rparr>"
    using h by (simp add: nci_target_data_packet_handler_def)
  then show "calls (nci_target_data_packet_handler K cid data self) = calls self"
    by simp
  show "nci_target_data_sent K success (nci_target_data_packet_handler K cid data self) =
        nci_target_finish_transmit K data (self\<lparr>send_in_progress := 0\<rparr>)"
    using h by (simp add: nci_target_data_packet_handler_def nci_target_data_sent_def e)
next
  assume "cid = NCI_STATIC_RF_CONN_ID K \<and> transmit_in_progress self \<and>
          pending_reply self = None \<and> send_in_progress self = 0"
  then show "nci_target_data_packet_handler K cid data self = nci_target_finish_transmit K data self"
    by (simp add: nci_target_data_packet_handler_def)
next
  assume "cid \<noteq> NCI_STATIC_RF_CONN_ID K \<or> \<not> transmit_in_progress self \<or> pending_reply self \<noteq> None"
  then show "nci_target_data_packet_handler K cid data self = self"
    by (auto simp: nci_target_data_packet_handler_def)
next
  show "send_in_progress (nci_target_data_sent K success self) = 0"
  proof (cases "pending_reply self")
    case None
    then show ?thesis by (simp add: nci_target_data_sent_def)
  next
    case (Some reply)
    then show ?thesis by (simp add: nci_target_data_sent_def finish_transmit_fields)
  qed
next
  assume "pending_reply self = None"
  then show "nci_target_data_sent K success self = self\<lparr>send_in_progress := 0\<rparr>"
    by (simp add: nci_target_data_sent_def)
next
  assume h: "cid = NCI_STATIC_RF_CONN_ID K \<and> transmit_in_progress self \<and>
             pending_reply self = None"
  then have "nci_target_data_sent K success self = self\<lparr>send_in_progress := 0\<rparr>"
    by (simp add: nci_target_data_sent_def)
  with h show "nci_target_data_packet_handler K cid data (nci_target_data_sent K success self) =
        nci_target_finish_transmit K data (self\<lparr>send_in_progress := 0\<rparr>)"
    by (simp add: nci_target_data_packet_handler_def)
qed

lemma example_target_sending_eq:
  "example_target_sending =
     example_target_t4a\<lparr>send_in_progress := 7, transmit_in_progress := True,
                          calls := [NCI_SEND_DATA_MSG 0x00 [0x00, 0xa4]]\<rparr>"
  by (simp add: example_target_simps nci_target_transmit_def target_call_def Let_def)

lemma example_target_waiting_eq:
  "example_target_waiting =
     example_target_t4a\<lparr>send_in_progress := 7, transmit_in_progress := True,
                          pending_reply := Some [0x90, 0x00],
                          calls := [NCI_SEND_DATA_MSG 0x00 [0x00, 0xa4]]\<rparr>"
  by (simp add: example_target_simps nci_target_transmit_def target_call_def Let_def
        nci_target_data_packet_handler_def)

text \<open>
  The reply 0x90 0x00 overtakes the send completion: it is kept, and the
  completion delivers it. The same reply after the completion is delivered at
  once.
\<close>

theorem reply_and_send_completion_witness:
  "nci_target_data_packet_handler example_defs 0x00 [0x90, 0x00] example_target_sending =
     example_target_sending\<lparr>pending_reply := Some [0x90, 0x00]\<rparr> \<and>
   calls (nci_target_data_sent example_defs True
            (nci_target_data_packet_handler example_defs 0x00 [0x90, 0x00]
               example_target_sending)) =
     [NCI_SEND_DATA_MSG 0x00 [0x00, 0xa4], TRANSMIT_DONE NFC_TRANSMIT_STATUS_OK [0x90, 0x00]] \<and>
   calls (nci_target_data_packet_handler example_defs 0x00 [0x90, 0x00]
            (nci_target_data_sent example_defs True example_target_sending)) =
     [NCI_SEND_DATA_MSG 0x00 [0x00, 0xa4], TRANSMIT_DONE NFC_TRANSMIT_STATUS_OK [0x90, 0x00]]"
proof -
  have "0x00 = NCI_STATIC_RF_CONN_ID example_defs \<and>
        transmit_in_progress example_target_sending \<and>
        pending_reply example_target_sending = None \<and>
        send_in_progress example_target_sending \<noteq> 0"
    by (simp add: example_target_sending_eq example_target_t4a_def example_defs_def)
  with reply_and_send_completion
         [of "0x00" example_defs example_target_sending "[0x90, 0x00]" True]
  have kept: "nci_target_data_packet_handler example_defs 0x00 [0x90, 0x00]
                example_target_sending =
              example_target_sending\<lparr>pending_reply := Some [0x90, 0x00]\<rparr>"
    and sent: "nci_target_data_sent example_defs True
                 (nci_target_data_packet_handler example_defs 0x00 [0x90, 0x00]
                    example_target_sending) =
               nci_target_finish_transmit example_defs [0x90, 0x00]
                 (example_target_sending\<lparr>send_in_progress := 0\<rparr>)"
    and late: "nci_target_data_packet_handler example_defs 0x00 [0x90, 0x00]
                 (nci_target_data_sent example_defs True example_target_sending) =
               nci_target_finish_transmit example_defs [0x90, 0x00]
                 (example_target_sending\<lparr>send_in_progress := 0\<rparr>)"
    by blast+
  have delivered: "calls (nci_target_finish_transmit example_defs [0x90, 0x00]
                 (example_target_sending\<lparr>send_in_progress := 0\<rparr>)) =
     [NCI_SEND_DATA_MSG 0x00 [0x00, 0xa4], TRANSMIT_DONE NFC_TRANSMIT_STATUS_OK [0x90, 0x00]]"
    by (simp add: example_target_sending_eq example_target_t4a_def
          nci_target_finish_transmit_def nci_target_transmit_finish_iso_dep_def target_call_def)
  from sent delivered have early: "calls (nci_target_data_sent example_defs True
            (nci_target_data_packet_handler example_defs 0x00 [0x90, 0x00]
               example_target_sending)) =
     [NCI_SEND_DATA_MSG 0x00 [0x00, 0xa4], TRANSMIT_DONE NFC_TRANSMIT_STATUS_OK [0x90, 0x00]]"
    by simp
  from late delivered have afterwards: "calls (nci_target_data_packet_handler example_defs 0x00 [0x90, 0x00]
            (nci_target_data_sent example_defs True example_target_sending)) =
     [NCI_SEND_DATA_MSG 0x00 [0x00, 0xa4], TRANSMIT_DONE NFC_TRANSMIT_STATUS_OK [0x90, 0x00]]"
    by simp
  from kept early afterwards show ?thesis by (intro conjI)
qed

lemma cancel_send_pending: "target_inv t \<Longrightarrow> pending_reply (nci_target_cancel_send t) = None"
  by (auto simp: target_inv_def nci_target_cancel_send_def Let_def target_call_def)

lemma cancel_send_inv: "target_inv t \<Longrightarrow> target_inv (nci_target_cancel_send t)"
  by (auto simp: target_inv_def nci_target_cancel_send_def Let_def target_call_def)

lemma target_new_inv: "nci_target_new ntf = Some t \<Longrightarrow> target_inv t"
  by (auto simp: nci_target_new_def target_inv_def Let_def split: if_splits prod.splits)

lemma target_step_inv:
  assumes "target_inv t" "target_step K op t = Some t'"
  shows "target_inv t'"
proof (cases op)
  case (T_TRANSMIT d i)
  then show ?thesis using assms
    by (auto simp: target_inv_def nci_target_transmit_def Let_def target_call_def split: if_splits)
next
  case (T_DATA_SENT ok)
  then show ?thesis using assms
    by (auto simp: target_inv_def nci_target_data_sent_def Let_def finish_transmit_fields
          split: if_splits option.splits)
next
  case (T_DATA_PACKET c d)
  then show ?thesis using assms
    by (auto simp: target_inv_def nci_target_data_packet_handler_def finish_transmit_fields
          split: if_splits)
next
  case T_CANCEL_TRANSMIT
  have "pending_reply (nci_target_cancel_send (t\<lparr>transmit_in_progress := False\<rparr>)) = None"
    using assms(1) by (auto simp: target_inv_def nci_target_cancel_send_def Let_def target_call_def)
  then show ?thesis using assms T_CANCEL_TRANSMIT
    by (simp add: nci_target_cancel_transmit_def target_inv_def)
next
  case T_GONE
  have "pending_reply (nci_target_cancel_send t) = None"
    by (rule cancel_send_pending [OF assms(1)])
  then show ?thesis using assms T_GONE
    by (auto simp: nci_target_gone_def nci_target_drop_adapter_def Let_def target_inv_def
          target_call_def split: if_splits)
next
  case T_ADAPTER_FINALIZED
  then show ?thesis using assms by (auto simp: target_inv_def)
qed

lemma target_reachable_inv: "target_reachable K t \<Longrightarrow> target_inv t"
proof (induction rule: target_reachable.induct)
  case (target_new ntf self)
  then show ?case by (rule target_new_inv)
next
  case (target_next self op self')
  from target_next.IH target_next.hyps(2) show ?case by (rule target_step_inv)
qed

lemma target_exec_reachable:
  "target_reachable K t \<Longrightarrow> target_reachable K (target_exec K ops t)"
proof (induction ops arbitrary: t)
  case Nil
  then show ?case by simp
next
  case (Cons op ops)
  show ?case
  proof (cases "target_step K op t")
    case None
    with Cons.prems show ?thesis by simp
  next
    case (Some t')
    with Cons.prems have "target_reachable K t'" by (rule target_next)
    then have "target_reachable K (target_exec K ops t')" by (rule Cons.IH)
    with Some show ?thesis by simp
  qed
qed

lemma example_target_t4a_new:
  "nci_target_new (example_ntf_t4a example_uid_first) = Some example_target_t4a"
  by (simp add: nci_target_new_def example_ntf_t4a_def example_target_t4a_def
        ISO_DEP_TRANSMIT_TIMEOUT_MS_def)

lemma example_target_waiting_reachable: "target_reachable example_defs example_target_waiting"
  unfolding example_target_waiting_def
  by (rule target_exec_reachable [OF target_new [OF example_target_t4a_new]])

text \<open>
  C10. In every state that a target reaches between two operations, a buffered
  reply comes with an outstanding send and a transmit in flight; so
  \<open>cancel_transmit\<close>, which frees the reply only in the branch for an
  outstanding send, leaves no reply behind.
\<close>

theorem pending_reply_needs_send:
  assumes "target_reachable K self"
  shows "(pending_reply self \<noteq> None \<longrightarrow> send_in_progress self \<noteq> 0 \<and> transmit_in_progress self) \<and>
         pending_reply (nci_target_cancel_transmit self) = None"
proof -
  have inv: "target_inv self" by (rule target_reachable_inv [OF assms])
  have "pending_reply (nci_target_cancel_transmit self) = None"
    using inv by (auto simp: nci_target_cancel_transmit_def nci_target_cancel_send_def
       target_inv_def Let_def target_call_def)
  then show ?thesis using inv by (simp add: target_inv_def)
qed

text \<open>The target that holds the early reply 0x90 0x00, and its cancellation.\<close>

theorem pending_reply_needs_send_witness:
  "pending_reply example_target_waiting = Some [0x90, 0x00] \<and>
   send_in_progress example_target_waiting \<noteq> 0 \<and>
   transmit_in_progress example_target_waiting \<and>
   pending_reply (nci_target_cancel_transmit example_target_waiting) = None"
  using pending_reply_needs_send [OF example_target_waiting_reachable]
  by (simp add: example_target_waiting_eq)

section \<open>The adapter state machine\<close>

lemma set_internal_state_eq:
  "nci_adapter_set_internal_state st s = s\<lparr>internal_state := st\<rparr>"
  by (simp add: nci_adapter_set_internal_state_def)

lemma set_active_tag_eq: "nci_adapter_set_active_tag obj s = s\<lparr>tag := obj\<rparr>"
  by (simp add: nci_adapter_set_active_tag_def)

lemma set_active_peer_eq: "nci_adapter_set_active_peer obj s = s\<lparr>peer := obj\<rparr>"
  by (simp add: nci_adapter_set_active_peer_def)

lemma set_active_host_eq: "nci_adapter_set_active_host obj s = s\<lparr>host := obj\<rparr>"
  by (simp add: nci_adapter_set_active_host_def)

lemma clear_active_intf_eq: "nci_adapter_clear_active_intf s = s\<lparr>active_intf := None\<rparr>"
  by (simp add: nci_adapter_clear_active_intf_def)

lemmas adapter_prims = set_internal_state_eq set_active_tag_eq set_active_peer_eq
  set_active_host_eq clear_active_intf_eq adapter_call_def
  nci_adapter_start_ce_reactivation_timer_def

lemma drop_target_eq:
  "nci_adapter_drop_target s =
     (case target s of None \<Rightarrow> s
      | Some t \<Rightarrow> s\<lparr>target := None, active_intf := None, presence_check_timer := None,
                    peer := None, tag := None, presence_check_id := 0,
                    out := out s @ (if presence_check_id s \<noteq> 0
                                    then [TARGET_CANCEL_TRANSMIT t (presence_check_id s)] else [])
                                 @ [TARGET_GONE t]\<rparr>)"
  by (simp add: nci_adapter_drop_target_def adapter_prims Let_def split: option.splits)

lemma drop_initiator_eq:
  "nci_adapter_drop_initiator K s =
     (case initiator s of None \<Rightarrow> s
      | Some i \<Rightarrow> s\<lparr>initiator := None, active_tech_mask := NCI_TECH_ALL K, active_intf := None,
                    ce_reactivation_timer := None, peer := None, host := None,
                    out := out s @ [NCI_SET_TECH (active_techs s), INITIATOR_GONE i]\<rparr>)"
  by (simp add: nci_adapter_drop_initiator_def adapter_prims Let_def split: option.splits)

lemma inv_drop_target: "adapter_inv s \<Longrightarrow> adapter_inv (nci_adapter_drop_target s)"
  by (auto simp: adapter_inv_def drop_target_eq nci_adapter_need_presence_checks_def
        split: option.splits)

lemma inv_drop_initiator: "adapter_inv s \<Longrightarrow> adapter_inv (nci_adapter_drop_initiator K s)"
  by (auto simp: adapter_inv_def drop_initiator_eq nci_adapter_need_presence_checks_def
        split: option.splits)

lemma inv_idle_drop_all:
  "adapter_inv s \<Longrightarrow>
   adapter_inv (nci_adapter_drop_all K (nci_adapter_set_internal_state NCI_ADAPTER_IDLE s))"
  by (auto simp: adapter_inv_def nci_adapter_drop_all_def drop_initiator_eq drop_target_eq
        set_internal_state_eq nci_adapter_need_presence_checks_def split: option.splits)

lemma inv_out [simp]: "adapter_inv (s\<lparr>out := x\<rparr>) = adapter_inv s"
  by (simp add: adapter_inv_def nci_adapter_need_presence_checks_def)

lemma inv_update_state: "adapter_inv s \<Longrightarrow> adapter_inv (activation_update_state K ntf s)"
  by (cases "internal_state s")
     (auto simp: adapter_inv_def activation_update_state_def drop_initiator_eq drop_target_eq
        adapter_prims nci_adapter_need_presence_checks_def Let_def split: option.splits)


lemma create_fst_snd:
  "snd (nci_adapter_create_peer_initiator fw ntf s) =
     s\<lparr>peer := fst (nci_adapter_create_peer_initiator fw ntf s)\<rparr>"
  "snd (nci_adapter_create_known_tag fw ntf s) =
     s\<lparr>tag := fst (nci_adapter_create_known_tag fw ntf s)\<rparr>"
  "snd (nci_adapter_create_peer_target fw ntf s) =
     s\<lparr>peer := fst (nci_adapter_create_peer_target fw ntf s)\<rparr>"
  "snd (nci_adapter_create_host fw ntf s) =
     s\<lparr>host := fst (nci_adapter_create_host fw ntf s)\<rparr>"
  by (simp_all add: nci_adapter_create_peer_initiator_def nci_adapter_create_known_tag_def
        nci_adapter_create_peer_target_def nci_adapter_create_host_def adapter_prims Let_def)

lemma inv_detect_object: "adapter_inv s \<Longrightarrow> adapter_inv (activation_detect_object fw ntf s)"
proof (cases "target s = None \<and> initiator s = None")
  case False
  assume a: "adapter_inv s"
  have "activation_detect_object fw ntf s = s"
    by (simp only: activation_detect_object_def False if_False)
  with a show ?thesis by simp
next
  case True
  assume a: "adapter_inv s"
  with True have pre: "active_intf s = None" "presence_check_timer s = None" "host s = None"
    by (auto simp: adapter_inv_def nci_adapter_need_presence_checks_def)
  show ?thesis
  proof (cases "nci_target_new ntf")
    case (Some obj)
    with True pre show ?thesis
      by (simp add: activation_detect_object_def adapter_prims Let_def create_fst_snd
            split_beta adapter_inv_def nci_adapter_need_presence_checks_def)
  next
    case None
    show ?thesis
    proof (cases "nci_initiator_new fw")
      case None
      with \<open>nci_target_new ntf = None\<close> True a show ?thesis
        by (simp add: activation_detect_object_def)
    next
      case (Some ini)
      with \<open>nci_target_new ntf = None\<close> True pre show ?thesis
        by (simp add: activation_detect_object_def adapter_prims Let_def create_fst_snd
            split_beta adapter_inv_def nci_adapter_need_presence_checks_def)
    qed
  qed
qed

lemma inv_activation: "adapter_inv s \<Longrightarrow> adapter_inv (nci_adapter_activation K fw ntf s)"
proof -
  assume a: "adapter_inv s"
  have "adapter_inv (s\<lparr>ce_reactivation_timer := None\<rparr>)"
    using a by (simp add: adapter_inv_def nci_adapter_need_presence_checks_def)
  then have "adapter_inv (activation_update_state K ntf (s\<lparr>ce_reactivation_timer := None\<rparr>))"
    by (rule inv_update_state)
  then have b: "adapter_inv (activation_detect_object fw ntf
                  (activation_update_state K ntf (s\<lparr>ce_reactivation_timer := None\<rparr>)))"
    (is "adapter_inv ?s3")
    by (rule inv_detect_object)
  have c: "adapter_inv (if nci_adapter_need_presence_checks ?s3 then
                  (if presence_check_timer ?s3 = None
                   then ?s3\<lparr>presence_check_timer := Some PRESENCE_CHECK_PERIOD_MS\<rparr>
                   else ?s3)
                else ?s3\<lparr>presence_check_timer := None\<rparr>)"
    using b by (auto simp: adapter_inv_def nci_adapter_need_presence_checks_def)
  show ?thesis
    using c by (simp add: nci_adapter_activation_def Let_def adapter_call_def)
qed

lemma inv_deactivation:
  "adapter_inv s \<Longrightarrow> nci_adapter_deactivation K s = Some s' \<Longrightarrow> adapter_inv s'"
proof -
  assume a: "adapter_inv s" and d: "nci_adapter_deactivation K s = Some s'"
  note idle = inv_idle_drop_all [OF a, of K]
  show ?thesis
  proof (cases "internal_state s")
    case NCI_ADAPTER_HAVE_INITIATOR
    show ?thesis
    proof (cases "host s")
      case None
      with NCI_ADAPTER_HAVE_INITIATOR d idle show ?thesis
        by (simp add: nci_adapter_deactivation_def)
    next
      case (Some h)
      with NCI_ADAPTER_HAVE_INITIATOR d a show ?thesis
        by (auto simp: nci_adapter_deactivation_def adapter_prims Let_def adapter_inv_def
              nci_adapter_need_presence_checks_def split: option.splits if_splits)
    qed
  next
    case NCI_ADAPTER_REACTIVATED_CE
    with d a show ?thesis
      by (auto simp: nci_adapter_deactivation_def adapter_prims adapter_inv_def
            nci_adapter_need_presence_checks_def)
  qed (use d a idle in \<open>auto simp: nci_adapter_deactivation_def\<close>)
qed

lemma inv_state_check: "adapter_inv (nci_adapter_state_check s) = adapter_inv s"
  by (simp add: nci_adapter_state_check_def adapter_call_def split: option.splits)

lemma inv_nci [simp]: "adapter_inv (s\<lparr>nci := x\<rparr>) = adapter_inv s"
  by (simp add: adapter_inv_def nci_adapter_need_presence_checks_def)

lemma inv_next_state_changed:
  assumes a: "adapter_inv s" and d: "nci_adapter_next_state_changed K s = Some s'"
  shows "adapter_inv s'"
proof -
  from d obtain n r where n: "nci s = Some n" and s': "s' = nci_adapter_state_check r"
    and r: "r = s \<or> nci_adapter_deactivation K s = Some r \<or>
            r = nci_adapter_drop_all K (nci_adapter_set_internal_state NCI_ADAPTER_IDLE s)"
    by (auto simp: nci_adapter_next_state_changed_def split: option.splits NCI_STATE.splits if_splits)
  from r a have "adapter_inv r"
    using inv_deactivation inv_idle_drop_all by blast
  then show ?thesis by (simp add: s' inv_state_check)
qed

lemma inv_deactivate_target:
  "adapter_inv s \<Longrightarrow> adapter_inv (nci_adapter_deactivate_target tgt s)"
  using inv_drop_target [of s]
  by (simp add: nci_adapter_deactivate_target_def Let_def adapter_call_def)

lemma inv_deactivate_initiator:
  "adapter_inv s \<Longrightarrow> adapter_inv (nci_adapter_deactivate_initiator K ini s)"
  using inv_drop_initiator [of s K]
  by (simp add: nci_adapter_deactivate_initiator_def Let_def adapter_call_def)

lemma inv_ce_timeout: "adapter_inv s \<Longrightarrow> adapter_inv (nci_adapter_ce_reactivation_timeout K s)"
proof -
  assume a: "adapter_inv s"
  have "adapter_inv (s\<lparr>ce_reactivation_timer := None\<rparr>)"
    using a by (simp add: adapter_inv_def nci_adapter_need_presence_checks_def)
  from inv_idle_drop_all [OF this, of K] show ?thesis
    by (simp add: nci_adapter_ce_reactivation_timeout_def Let_def)
qed

lemma inv_presence_check_timer:
  "adapter_inv s \<Longrightarrow> nci_adapter_presence_check_timer b i s = Some s' \<Longrightarrow> adapter_inv s'"
  by (auto simp: nci_adapter_presence_check_timer_def Let_def adapter_call_def adapter_inv_def
        nci_adapter_need_presence_checks_def split: if_splits option.splits)

lemma inv_presence_check_done:
  "adapter_inv s \<Longrightarrow> adapter_inv (nci_adapter_presence_check_done tgt ok s)"
proof -
  assume a: "adapter_inv s"
  have "adapter_inv (s\<lparr>presence_check_id := 0\<rparr>)"
    using a by (simp add: adapter_inv_def nci_adapter_need_presence_checks_def)
  then show ?thesis
    by (simp add: nci_adapter_presence_check_done_def Let_def inv_deactivate_target)
qed

lemma inv_reactivate: "adapter_inv s \<Longrightarrow> adapter_inv (snd (nci_adapter_reactivate tgt s))"
  by (auto simp: nci_adapter_reactivate_def Let_def adapter_prims adapter_inv_def
        nci_adapter_need_presence_checks_def split: option.splits)

lemma set_allowed_techs_fields:
  "\<exists>a c. nci_adapter_set_allowed_techs K techs s = s\<lparr>active_techs := a, out := c\<rparr>"
  by (simp add: nci_adapter_set_allowed_techs_def Let_def adapter_call_def) blast

lemma inv_set_allowed_techs:
  "adapter_inv s \<Longrightarrow> adapter_inv (nci_adapter_set_allowed_techs K techs s)"
proof -
  assume a: "adapter_inv s"
  obtain x c where "nci_adapter_set_allowed_techs K techs s = s\<lparr>active_techs := x, out := c\<rparr>"
    using set_allowed_techs_fields by blast
  with a show ?thesis by (simp add: adapter_inv_def nci_adapter_need_presence_checks_def)
qed

lemma inv_irrelevant:
  "adapter_inv (s\<lparr>tag := t\<rparr>) = adapter_inv s"
  "adapter_inv (s\<lparr>peer := p\<rparr>) = adapter_inv s"
  "adapter_inv (s\<lparr>parent := a\<rparr>) = adapter_inv s"
  by (simp_all add: adapter_inv_def nci_adapter_need_presence_checks_def)

lemma inv_host_cleared: "adapter_inv s \<Longrightarrow> adapter_inv (s\<lparr>host := None\<rparr>)"
  by (simp add: adapter_inv_def nci_adapter_need_presence_checks_def)

lemma inv_step:
  assumes a: "adapter_inv s" and st: "adapter_step K op s = Some s'"
  shows "adapter_inv s'"
proof (cases op)
  case (A_INTF_ACTIVATED fw ntf)
  with st have "s' = nci_adapter_activation K fw ntf s" by simp
  with a show ?thesis by (simp add: inv_activation)
next
  case (A_NEXT_STATE x)
  with st obtain n where "nci s = Some n"
     "nci_adapter_next_state_changed K (s\<lparr>nci := Some (n\<lparr>next_state := x\<rparr>)\<rparr>) = Some s'"
    by (cases "nci s") simp_all
  then show ?thesis
    using inv_next_state_changed [of "s\<lparr>nci := Some (n\<lparr>next_state := x\<rparr>)\<rparr>" K s'] a
    by simp
next
  case (A_CURRENT_STATE x)
  with st obtain n where "nci s = Some n"
     "s' = nci_adapter_state_check (s\<lparr>nci := Some (n\<lparr>current_state := x\<rparr>)\<rparr>)"
    by (cases "nci s") (simp_all add: nci_adapter_current_state_changed_def)
  with a show ?thesis by (simp add: inv_state_check)
next
  case A_CE_REACTIVATION_TIMEOUT
  with st have "s' = nci_adapter_ce_reactivation_timeout K s"
    by (simp split: if_splits)
  with a show ?thesis by (simp add: inv_ce_timeout)
next
  case (A_PRESENCE_CHECK_TIMER b i)
  with st have "nci_adapter_presence_check_timer b i s = Some s'"
    by (simp split: if_splits)
  with a show ?thesis by (rule inv_presence_check_timer)
next
  case (A_PRESENCE_CHECK_DONE tgt ok)
  with st have "s' = nci_adapter_presence_check_done tgt ok s" by simp
  with a show ?thesis by (simp add: inv_presence_check_done)
next
  case (A_REACTIVATE tgt)
  with st have "s' = snd (nci_adapter_reactivate tgt s)" by simp
  with a show ?thesis by (simp add: inv_reactivate)
next
  case (A_DEACTIVATE_TARGET tgt)
  with st have "s' = nci_adapter_deactivate_target tgt s" by simp
  with a show ?thesis by (simp add: inv_deactivate_target)
next
  case (A_DEACTIVATE_INITIATOR ini)
  with st have "s' = nci_adapter_deactivate_initiator K ini s" by simp
  with a show ?thesis by (simp add: inv_deactivate_initiator)
next
  case (A_SET_ALLOWED_TECHS techs)
  with st have "s' = nci_adapter_set_allowed_techs K techs s" by simp
  with a show ?thesis by (simp add: inv_set_allowed_techs)
next
  case (A_OBJECT_DESTROYED w)
  show ?thesis
  proof (cases w)
    case WEAK_TAG
    with A_OBJECT_DESTROYED st have "s' = s\<lparr>tag := None\<rparr>" by simp
    with a show ?thesis by (simp add: inv_irrelevant)
  next
    case WEAK_HOST
    with A_OBJECT_DESTROYED st have "s' = s\<lparr>host := None\<rparr>" by simp
    with a show ?thesis by (simp add: inv_host_cleared)
  next
    case WEAK_PEER
    with A_OBJECT_DESTROYED st have "s' = s\<lparr>peer := None\<rparr>" by simp
    with a show ?thesis by (simp add: inv_irrelevant)
  qed
next
  case (A_PARENT_FLAGS p)
  with st have "s' = s\<lparr>parent := p\<rparr>" by simp
  with a show ?thesis by (simp add: inv_irrelevant)
qed

lemma inv_init: "adapter_inv (nci_adapter_init K techs core par)"
  by (simp add: adapter_inv_def nci_adapter_init_def nci_adapter_need_presence_checks_def)

lemma reachable_inv: "adapter_reachable K s \<Longrightarrow> adapter_inv s"
proof (induction rule: adapter_reachable.induct)
  case (adapter_init techs core par)
  show ?case by (rule inv_init)
next
  case (adapter_next self op self')
  from adapter_next.IH adapter_next.hyps(2) show ?case by (rule inv_step)
qed

subsection \<open>Runs and the concrete adapters\<close>

lemma adapter_exec_reachable:
  "adapter_reachable K s \<Longrightarrow> adapter_reachable K (adapter_exec K ops s)"
proof (induction ops arbitrary: s)
  case Nil
  then show ?case by simp
next
  case (Cons op ops)
  show ?case
  proof (cases "adapter_step K op s")
    case None
    with Cons.prems show ?thesis by simp
  next
    case (Some s')
    with Cons.prems have "adapter_reachable K s'" by (rule adapter_next)
    then have "adapter_reachable K (adapter_exec K ops s')" by (rule Cons.IH)
    with Some show ?thesis by simp
  qed
qed

lemma example_run_reachable:
  "adapter_reachable example_defs (adapter_exec example_defs ops example_adapter)"
  unfolding example_adapter_def by (rule adapter_exec_reachable [OF adapter_init])

lemmas example_adapter_simps = example_defs_def example_framework_def example_adapter_def
  example_initiator_def example_poll_trace_def example_listen_trace_def
  example_adapter_tag_def example_adapter_p2p_def example_adapter_host_def
  example_adapter_reactivating_ce_def example_ntf_t2_def example_ntf_p2p_def example_ntf_ce_def

lemmas adapter_eval = nci_adapter_init_def nci_adapter_activation_def activation_update_state_def
  activation_detect_object_def nci_target_new_def nci_adapter_create_peer_initiator_def
  nci_adapter_create_known_tag_def nci_adapter_create_peer_target_def nci_adapter_create_host_def
  nci_adapter_intf_info_new_def nci_util_copy_mode_param_def
  nci_adapter_need_presence_checks_def nci_adapter_next_state_changed_def
  nci_adapter_current_state_changed_def nci_adapter_state_check_def nci_adapter_deactivation_def
  nci_adapter_drop_all_def nci_adapter_deactivate_target_def nci_adapter_reactivate_def
  nci_adapter_ce_reactivation_timeout_def drop_target_eq drop_initiator_eq adapter_prims Let_def
  PRESENCE_CHECK_PERIOD_MS_def CE_REACTIVATION_TIMEOUT_MS_def ISO_DEP_TRANSMIT_TIMEOUT_MS_def

lemma example_adapter_tag_eq:
  "example_adapter_tag =
     example_adapter
       \<lparr> target := Some 1,
         nci := Some \<lparr> current_state = NCI_RFST_POLL_ACTIVE, next_state = NCI_RFST_POLL_ACTIVE \<rparr>,
         presence_check_timer := Some 250,
         active_intf := Some (nci_adapter_intf_info_new example_ntf_t2),
         internal_state := NCI_ADAPTER_HAVE_TARGET,
         tag := Some 3 \<rparr>"
  by (simp add: example_adapter_simps adapter_eval)


lemma example_adapter_host_eq:
  "example_adapter_host =
     example_adapter
       \<lparr> nci := Some \<lparr> current_state = NCI_RFST_LISTEN_ACTIVE,
                       next_state = NCI_RFST_LISTEN_ACTIVE \<rparr>,
         active_intf := Some (nci_adapter_intf_info_new example_ntf_ce),
         initiator := Some example_initiator,
         internal_state := NCI_ADAPTER_HAVE_INITIATOR,
         host := Some 5 \<rparr>"
  by (simp add: example_adapter_simps adapter_eval)

lemma example_adapter_reactivating_ce_eq:
  "example_adapter_reactivating_ce =
     example_adapter
       \<lparr> nci := Some \<lparr> current_state = NCI_RFST_LISTEN_ACTIVE, next_state = NCI_RFST_DISCOVERY \<rparr>,
         active_intf := Some (nci_adapter_intf_info_new example_ntf_ce),
         initiator := Some example_initiator,
         internal_state := NCI_ADAPTER_REACTIVATING_CE,
         ce_reactivation_timer := Some 1500,
         active_tech_mask := 0x000c,
         host := Some 5,
         out := [NCI_SET_TECH 0x000c] \<rparr>"
  by (simp add: example_adapter_reactivating_ce_def example_adapter_host_eq)
     (simp add: example_adapter_simps adapter_eval)



lemma example_adapter_host_reachable: "adapter_reachable example_defs example_adapter_host"
  unfolding example_adapter_host_def by (rule example_run_reachable)

lemma example_adapter_reactivating_ce_reachable:
  "adapter_reachable example_defs example_adapter_reactivating_ce"
  unfolding example_adapter_reactivating_ce_def example_adapter_host_def
  by (rule adapter_exec_reachable [OF example_run_reachable])

subsection \<open>The stored interface and the internal state\<close>




subsection \<open>The presence-check timer\<close>




subsection \<open>Reactivation on request\<close>

text \<open>
  C7. A request to reactivate the target that the adapter holds returns true,
  moves to REACTIVATING_TARGET, stops the presence-check timer and commands the
  NCI core to DISCOVERY exactly when \<open>internal_state\<close> is HAVE_TARGET,
  \<open>active_intf\<close> is set and the current and the next state of the NCI core are
  both POLL_ACTIVE or both LISTEN_ACTIVE; otherwise it returns false and leaves
  the adapter as it was.
\<close>

theorem reactivate_request:
  assumes "target self = Some t"
  shows "nci_adapter_reactivate (Some t) self =
     (if internal_state self = NCI_ADAPTER_HAVE_TARGET \<and> active_intf self \<noteq> None \<and>
         (\<exists>n. nci self = Some n \<and>
              ((current_state n = NCI_RFST_POLL_ACTIVE \<and> next_state n = NCI_RFST_POLL_ACTIVE) \<or>
               (current_state n = NCI_RFST_LISTEN_ACTIVE \<and> next_state n = NCI_RFST_LISTEN_ACTIVE)))
      then (True, self\<lparr>internal_state := NCI_ADAPTER_REACTIVATING_TARGET,
                        presence_check_timer := None,
                        out := out self @ [NCI_SET_STATE NCI_RFST_DISCOVERY]\<rparr>)
      else (False, self))"
  using assms
  by (cases "nci self") (auto simp: nci_adapter_reactivate_def Let_def adapter_prims)

text \<open>
  The Type 2 tag is reactivated while the NCI core rests in POLL_ACTIVE, and the
  request is denied once the core is on its way to DISCOVERY.
\<close>

theorem reactivate_request_witness:
  "nci_adapter_reactivate (Some 1) example_adapter_tag =
     (True, example_adapter_tag\<lparr>internal_state := NCI_ADAPTER_REACTIVATING_TARGET,
                                 presence_check_timer := None,
                                 out := [NCI_SET_STATE NCI_RFST_DISCOVERY]\<rparr>) \<and>
   nci_adapter_reactivate (Some 1)
     (example_adapter_tag\<lparr>nci := Some \<lparr> current_state = NCI_RFST_POLL_ACTIVE,
                                         next_state = NCI_RFST_DISCOVERY \<rparr>\<rparr>) =
     (False, example_adapter_tag\<lparr>nci := Some \<lparr> current_state = NCI_RFST_POLL_ACTIVE,
                                                next_state = NCI_RFST_DISCOVERY \<rparr>\<rparr>)"
  using reactivate_request [of example_adapter_tag 1]
        reactivate_request
          [of "example_adapter_tag\<lparr>nci := Some \<lparr> current_state = NCI_RFST_POLL_ACTIVE,
                                                 next_state = NCI_RFST_DISCOVERY \<rparr>\<rparr>" 1]
  by (simp add: example_adapter_tag_eq example_adapter_def nci_adapter_init_def)

subsection \<open>Card emulation: deactivation and timeout\<close>

text \<open>
  C8. A deactivation arrives in a reachable state HAVE_INITIATOR with a host
  present. The adapter then holds an initiator, moves to REACTIVATING_CE and arms
  the CE reactivation timer with 1500 ms. If the technology of the initiator is
  A, \<open>active_tech_mask\<close> becomes \<open>TECH_A_LISTEN\<close> and
  \<open>active_techs & TECH_A_LISTEN\<close> is pushed to the NCI core; for B the same with
  \<open>TECH_B_LISTEN\<close>; for any other technology the mask stays and nothing is
  pushed.
\<close>

theorem deactivation_locks_ce_tech:
  assumes "nci_defs_ok K" and "adapter_reachable K self"
      and "internal_state self = NCI_ADAPTER_HAVE_INITIATOR" and "host self \<noteq> None"
  shows "\<exists>ini s'. initiator self = Some ini \<and> nci_adapter_deactivation K self = Some s' \<and>
           internal_state s' = NCI_ADAPTER_REACTIVATING_CE \<and>
           ce_reactivation_timer s' = Some 1500 \<and>
           (technology ini = NFC_TECHNOLOGY_A \<longrightarrow>
              active_tech_mask s' = NCI_TECH_A_LISTEN K \<and>
              out s' = out self @ [NCI_SET_TECH (active_techs self AND NCI_TECH_A_LISTEN K)]) \<and>
           (technology ini = NFC_TECHNOLOGY_B \<longrightarrow>
              active_tech_mask s' = NCI_TECH_B_LISTEN K \<and>
              out s' = out self @ [NCI_SET_TECH (active_techs self AND NCI_TECH_B_LISTEN K)]) \<and>
           (technology ini \<noteq> NFC_TECHNOLOGY_A \<and> technology ini \<noteq> NFC_TECHNOLOGY_B \<longrightarrow>
              active_tech_mask s' = active_tech_mask self \<and> out s' = out self)"
proof -
  from reachable_inv [OF assms(2)] assms(4) obtain ini where ini: "initiator self = Some ini"
    by (auto simp: adapter_inv_def)
  show ?thesis
    using assms(1,3,4) ini
    by (cases "technology ini")
       (auto simp: nci_adapter_deactivation_def Let_def adapter_prims nci_defs_ok_def
          CE_REACTIVATION_TIMEOUT_MS_def)
qed

text \<open>
  The reader drops the field while the host of technology A is active: the
  adapter waits for the same reader on the listen-A technologies only.
\<close>

theorem deactivation_locks_ce_tech_witness:
  "internal_state example_adapter_host = NCI_ADAPTER_HAVE_INITIATOR \<and>
   host example_adapter_host = Some 5 \<and>
   (\<exists>s'. nci_adapter_deactivation example_defs example_adapter_host = Some s' \<and>
         internal_state s' = NCI_ADAPTER_REACTIVATING_CE \<and>
         ce_reactivation_timer s' = Some 1500 \<and>
         active_tech_mask s' = 0x000c \<and>
         out s' = [NCI_SET_TECH 0x000c])"
proof -
  have ok: "nci_defs_ok example_defs"
    by (simp add: nci_defs_ok_def example_defs_def)
  have st: "internal_state example_adapter_host = NCI_ADAPTER_HAVE_INITIATOR"
    and h: "host example_adapter_host = Some 5"
    and i: "initiator example_adapter_host = Some example_initiator"
    and o: "out example_adapter_host = []"
    and a: "active_techs example_adapter_host = 0x003f"
    by (simp_all add: example_adapter_host_eq example_adapter_def nci_adapter_init_def)
  from h have h': "host example_adapter_host \<noteq> None" by simp
  from deactivation_locks_ce_tech [OF ok example_adapter_host_reachable st h']
  obtain ini s' where r: "initiator example_adapter_host = Some ini"
      "nci_adapter_deactivation example_defs example_adapter_host = Some s'"
      "internal_state s' = NCI_ADAPTER_REACTIVATING_CE"
      "ce_reactivation_timer s' = Some 1500"
      "technology ini = NFC_TECHNOLOGY_A \<longrightarrow>
         active_tech_mask s' = NCI_TECH_A_LISTEN example_defs \<and>
         out s' = out example_adapter_host @
           [NCI_SET_TECH (active_techs example_adapter_host AND NCI_TECH_A_LISTEN example_defs)]"
    by blast
  from r(1) i have "ini = example_initiator" by simp
  then have "technology ini = NFC_TECHNOLOGY_A"
    by (simp add: example_initiator_def)
  with r(5) have "active_tech_mask s' = 0x000c \<and> out s' = [NCI_SET_TECH 0x000c]"
    by (simp add: o a example_defs_def)
  with r(2,3,4) st h show ?thesis by simp
qed

lemma example_adapter_abandoned_eq:
  "example_adapter_abandoned =
     example_adapter
       \<lparr> nci := Some \<lparr> current_state = NCI_RFST_LISTEN_ACTIVE, next_state = NCI_RFST_DISCOVERY \<rparr>,
         internal_state := NCI_ADAPTER_REACTIVATING_CE,
         ce_reactivation_timer := Some 1500,
         out := [INITIATOR_REACTIVATED (Some example_initiator), NCI_SET_TECH 0x003f,
                 INITIATOR_GONE example_initiator, NCI_SET_STATE NCI_RFST_DISCOVERY] \<rparr>"
  by (simp add: example_adapter_abandoned_def example_adapter_host_eq)
     (simp add: example_adapter_simps adapter_eval nci_adapter_deactivate_initiator_def
        nci_adapter_intf_info_matches_def nci_adapter_info_mode_params_matches_def
        mode_param_bytes_match_def memcmp_eq_def)

lemma example_adapter_abandoned_reachable:
  "adapter_reachable example_defs example_adapter_abandoned"
  unfolding example_adapter_abandoned_def example_adapter_host_def
  by (rule adapter_exec_reachable [OF example_run_reachable])

text \<open>
  C9 fails as stated in a reachable state. The upper layer has deactivated the
  initiator of the reactivated host, which leaves \<open>internal_state\<close> at
  REACTIVATED_CE, and the deactivation that follows moves to REACTIVATING_CE and
  arms the timer without looking at the initiator. When this timer expires there
  is no initiator to drop: the adapter only goes to IDLE, sends no gone
  notification and pushes nothing to the NCI core.
\<close>

theorem ce_timeout_without_initiator_counterexample:
  "adapter_reachable example_defs example_adapter_abandoned \<and>
   internal_state example_adapter_abandoned = NCI_ADAPTER_REACTIVATING_CE \<and>
   ce_reactivation_timer example_adapter_abandoned = Some 1500 \<and>
   initiator example_adapter_abandoned = None \<and>
   nci_adapter_ce_reactivation_timeout example_defs example_adapter_abandoned =
     example_adapter_abandoned\<lparr>internal_state := NCI_ADAPTER_IDLE,
                                 ce_reactivation_timer := None\<rparr> \<and>
   out (nci_adapter_ce_reactivation_timeout example_defs example_adapter_abandoned) =
     out example_adapter_abandoned"
  using example_adapter_abandoned_reachable
  by (simp add: example_adapter_abandoned_eq example_adapter_def nci_adapter_init_def
        nci_adapter_ce_reactivation_timeout_def nci_adapter_drop_all_def Let_def
        drop_target_eq drop_initiator_eq adapter_prims)

text \<open>
  C9, as the code has it. The CE reactivation timer expires in a reachable state
  REACTIVATING_CE. The adapter sets \<open>internal_state\<close> to IDLE and the timer is
  gone. If the adapter holds an initiator, it drops it with a gone notification
  to it, restores \<open>active_tech_mask\<close> to \<open>TECH_ALL\<close> and pushes
  \<open>active_techs\<close> to the NCI core, and the stored interface and the host and
  peer observations are cleared with it. If it holds none, nothing else changes
  and nothing is sent.
\<close>

theorem ce_timeout_by_initiator:
  assumes "adapter_reachable K self"
      and "internal_state self = NCI_ADAPTER_REACTIVATING_CE"
      and "ce_reactivation_timer self \<noteq> None"
  shows "nci_adapter_ce_reactivation_timeout K self =
           (case initiator self of
              Some ini \<Rightarrow>
                self\<lparr>internal_state := NCI_ADAPTER_IDLE, initiator := None,
                     active_tech_mask := NCI_TECH_ALL K, active_intf := None,
                     ce_reactivation_timer := None, peer := None, host := None,
                     out := out self @ [NCI_SET_TECH (active_techs self), INITIATOR_GONE ini]\<rparr>
            | None \<Rightarrow>
                self\<lparr>internal_state := NCI_ADAPTER_IDLE, ce_reactivation_timer := None\<rparr>)"
proof -
  from reachable_inv [OF assms(1)] assms(2) have t: "target self = None"
    by (auto simp: adapter_inv_def)
  show ?thesis
  proof (cases "initiator self")
    case None
    with t show ?thesis
      by (simp add: nci_adapter_ce_reactivation_timeout_def nci_adapter_drop_all_def Let_def
            drop_target_eq drop_initiator_eq adapter_prims)
  next
    case (Some ini)
    with t show ?thesis
      by (simp add: nci_adapter_ce_reactivation_timeout_def nci_adapter_drop_all_def Let_def
            drop_target_eq drop_initiator_eq adapter_prims)
  qed
qed

text \<open>The reader does not come back within 1500 ms while the initiator is held.\<close>

theorem ce_timeout_by_initiator_witness:
  "internal_state example_adapter_reactivating_ce = NCI_ADAPTER_REACTIVATING_CE \<and>
   ce_reactivation_timer example_adapter_reactivating_ce = Some 1500 \<and>
   nci_adapter_ce_reactivation_timeout example_defs example_adapter_reactivating_ce =
     example_adapter_reactivating_ce
       \<lparr>internal_state := NCI_ADAPTER_IDLE, initiator := None,
        active_tech_mask := 0x0fff, active_intf := None,
        ce_reactivation_timer := None, peer := None, host := None,
        out := [NCI_SET_TECH 0x000c, NCI_SET_TECH 0x003f, INITIATOR_GONE example_initiator]\<rparr>"
  using ce_timeout_by_initiator [OF example_adapter_reactivating_ce_reachable]
  by (simp add: example_adapter_reactivating_ce_eq example_adapter_def nci_adapter_init_def
        example_defs_def)

end
